theory Spec2Isabelle
  imports Complex_Main "HOL-Library.Sublist"
begin

section \<open>Python floats\<close>

text \<open>
  The current axis, the readback and the measurements are Python floats (IEEE 754
  binary64).  A finite float is modelled by the rational number it denotes; the two
  infinities and not-a-number are separate values.  Negative zero is identified with
  zero: the scripts only compare and print floats, and \<open>-0.0 == 0.0\<close> in Python.
\<close>

datatype pyfloat = Fin rat | PInf | NInf | NaN

text \<open>Number of binary digits of a positive integer (\<open>int.bit_length\<close>).\<close>

function bit_length :: "int \<Rightarrow> int" where
  "bit_length n = (if n \<le> 0 then 0 else 1 + bit_length (n div 2))"
  by pat_completeness auto
termination
  by (relation "measure nat") auto

declare bit_length.simps [simp del]

text \<open>For \<open>a > 0\<close>, the integer \<open>e\<close> with \<open>2\<^sup>e \<le> a < 2\<^sup>e\<^sup>+\<^sup>1\<close>.\<close>

definition floor_log2 :: "rat \<Rightarrow> int" where
  "floor_log2 a =
     (if 1 \<le> a then bit_length \<lfloor>a\<rfloor> - 1
      else - bit_length (\<lceil>1 / a\<rceil> - 1))"

definition round_half_even :: "rat \<Rightarrow> int" where
  "round_half_even x =
     (let f = \<lfloor>x\<rfloor>; d = x - of_int f
      in if d < 1 / 2 then f
         else if 1 / 2 < d then f + 1
         else if even f then f else f + 1)"

text \<open>
  Rounding of an exact result to binary64: 53 significant bits, the smallest spacing
  \<open>2\<^sup>-\<^sup>1\<^sup>0\<^sup>7\<^sup>4\<close> (subnormals), round to nearest with ties to the even significand, and
  overflow to infinity once the rounded magnitude reaches \<open>2\<^sup>1\<^sup>0\<^sup>2\<^sup>4\<close>.
\<close>

definition fl :: "rat \<Rightarrow> pyfloat" where
  "fl q =
     (if q = 0 then Fin 0
      else let p = max (floor_log2 \<bar>q\<bar> - 52) (- 1074);
               r = of_int (round_half_even (q / 2 powi p)) * 2 powi p
           in if 2 ^ 1024 \<le> r then PInf
              else if r \<le> - (2 ^ 1024) then NInf
              else Fin r)"

fun fneg :: "pyfloat \<Rightarrow> pyfloat" where
  "fneg (Fin a) = Fin (- a)"
| "fneg PInf = NInf"
| "fneg NInf = PInf"
| "fneg NaN = NaN"

fun fadd :: "pyfloat \<Rightarrow> pyfloat \<Rightarrow> pyfloat" where
  "fadd NaN y = NaN"
| "fadd x NaN = NaN"
| "fadd (Fin a) (Fin b) = fl (a + b)"
| "fadd PInf NInf = NaN"
| "fadd NInf PInf = NaN"
| "fadd PInf y = PInf"
| "fadd NInf y = NInf"
| "fadd (Fin a) y = y"

definition fsub :: "pyfloat \<Rightarrow> pyfloat \<Rightarrow> pyfloat" where
  "fsub x y = fadd x (fneg y)"

fun fsgn :: "pyfloat \<Rightarrow> int" where
  "fsgn (Fin a) = (if 0 < a then 1 else if a < 0 then - 1 else 0)"
| "fsgn PInf = 1"
| "fsgn NInf = - 1"
| "fsgn NaN = 0"

fun fmul :: "pyfloat \<Rightarrow> pyfloat \<Rightarrow> pyfloat" where
  "fmul NaN y = NaN"
| "fmul x NaN = NaN"
| "fmul (Fin a) (Fin b) = fl (a * b)"
| "fmul x y =
     (if fsgn x * fsgn y = 0 then NaN
      else if 0 < fsgn x * fsgn y then PInf else NInf)"

fun fabs :: "pyfloat \<Rightarrow> pyfloat" where
  "fabs (Fin a) = Fin \<bar>a\<bar>"
| "fabs PInf = PInf"
| "fabs NInf = PInf"
| "fabs NaN = NaN"

text \<open>Comparisons: every comparison with not-a-number is false.\<close>

fun flt :: "pyfloat \<Rightarrow> pyfloat \<Rightarrow> bool" where
  "flt NaN y = False"
| "flt x NaN = False"
| "flt (Fin a) (Fin b) = (a < b)"
| "flt x PInf = (x \<noteq> PInf)"
| "flt NInf y = (y \<noteq> NInf)"
| "flt x y = False"

definition fle :: "pyfloat \<Rightarrow> pyfloat \<Rightarrow> bool" where
  "fle x y = (x \<noteq> NaN \<and> y \<noteq> NaN \<and> (flt x y \<or> x = y))"

definition fgt :: "pyfloat \<Rightarrow> pyfloat \<Rightarrow> bool" where
  "fgt x y = flt y x"

section \<open>Python strings\<close>

text \<open>
  A \<open>string\<close> of the model is a Python \<open>str\<close> whose code points are below 256, one
  \<open>char\<close> per code point.  \<open>is_space\<close> is \<open>str.isspace\<close> on these code points.
\<close>

definition is_space :: "char \<Rightarrow> bool" where
  "is_space c = ((of_char c :: nat) \<in> {9, 10, 11, 12, 13, 28, 29, 30, 31, 32, 133, 160})"

definition lstrip :: "string \<Rightarrow> string" where
  "lstrip s = dropWhile is_space s"

definition rstrip :: "string \<Rightarrow> string" where
  "rstrip s = rev (dropWhile is_space (rev s))"

text \<open>\<open>str.strip()\<close> removes whitespace at both ends.\<close>

definition strip :: "string \<Rightarrow> string" where
  "strip s = rstrip (lstrip s)"

text \<open>\<open>s.replace('\\x00', '')\<close>\<close>

definition remove_nul :: "string \<Rightarrow> string" where
  "remove_nul s = filter (\<lambda>c. c \<noteq> CHR 0x00) s"

definition lower_char :: "char \<Rightarrow> char" where
  "lower_char c =
     (let n = (of_char c :: nat)
      in if (65 \<le> n \<and> n \<le> 90) \<or> (192 \<le> n \<and> n \<le> 222 \<and> n \<noteq> 215)
         then char_of (n + 32) else c)"

definition lower :: "string \<Rightarrow> string" where
  "lower s = map lower_char s"

text \<open>\<open>s.startswith(p)\<close>\<close>

definition startswith :: "string \<Rightarrow> string \<Rightarrow> bool" where
  "startswith s p = (take (length p) s = p)"

section \<open>The builtin \<open>float()\<close> and the tolerant parser\<close>

datatype pyexc =
    KeyboardInterrupt
  | OSError
  | ValueError
  | TypeError
  | UnicodeDecodeError
  | LoadSetupError string
  | SetCurrentError pyfloat pyfloat

text \<open>
  \<open>except ValueError\<close> also catches the subclass \<open>UnicodeDecodeError\<close>;
  \<open>except Exception\<close> catches everything but \<open>KeyboardInterrupt\<close>.
\<close>

definition is_ValueError :: "pyexc \<Rightarrow> bool" where
  "is_ValueError e = (e = ValueError \<or> e = UnicodeDecodeError)"

definition is_Exception :: "pyexc \<Rightarrow> bool" where
  "is_Exception e = (e \<noteq> KeyboardInterrupt)"

definition is_digit :: "char \<Rightarrow> bool" where
  "is_digit c = (48 \<le> (of_char c :: nat) \<and> (of_char c :: nat) \<le> 57)"

definition digits_value :: "string \<Rightarrow> int" where
  "digits_value ds = foldl (\<lambda>n c. 10 * n + ((of_char c :: int) - 48)) 0 ds"

text \<open>
  Underscores in a numeric string are allowed only between two digits; the checked
  string is returned without them.  \<open>prev\<close> is the character before the current one.
\<close>

fun strip_underscores :: "char option \<Rightarrow> string \<Rightarrow> string option" where
  "strip_underscores prev [] =
     (if prev = Some (CHR ''_'') then None else Some [])"
| "strip_underscores prev (c # cs) =
     (if c = CHR ''_''
      then (case prev of
              None \<Rightarrow> None
            | Some p \<Rightarrow> if is_digit p then strip_underscores (Some c) cs else None)
      else if prev = Some (CHR ''_'') \<and> \<not> is_digit c then None
      else map_option ((#) c) (strip_underscores (Some c) cs))"

definition split_sign :: "string \<Rightarrow> bool \<times> string" where
  "split_sign s =
     (case s of
        [] \<Rightarrow> (False, [])
      | c # cs \<Rightarrow> if c = CHR ''-'' then (True, cs)
                  else if c = CHR ''+'' then (False, cs)
                  else (False, s))"

text \<open>
  An unsigned decimal literal: digits with an optional fraction (at least one digit in
  all) and an optional exponent part \<open>e\<close> or \<open>E\<close>, sign, digits.  The result is the
  exact rational value.
\<close>

definition parse_decimal :: "string \<Rightarrow> rat option" where
  "parse_decimal s =
     (let ip = takeWhile is_digit s; r1 = dropWhile is_digit s;
          frac = (case r1 of
                    [] \<Rightarrow> []
                  | c # cs \<Rightarrow> if c = CHR ''.'' then cs else r1);
          has_point = (r1 \<noteq> [] \<and> hd r1 = CHR ''.'');
          fp = (if has_point then takeWhile is_digit frac else []);
          r2 = (if has_point then dropWhile is_digit frac else r1);
          mant = of_int (digits_value (ip @ fp)) / 10 ^ length fp
      in if ip = [] \<and> fp = [] then None
         else (case r2 of
                 [] \<Rightarrow> Some mant
               | c # cs \<Rightarrow>
                   if c = CHR ''e'' \<or> c = CHR ''E''
                   then (let (neg, ds) = split_sign cs
                         in if ds \<noteq> [] \<and> list_all is_digit ds
                            then Some (mant * 10 powi
                                   (if neg then - digits_value ds else digits_value ds))
                            else None)
                   else None))"

text \<open>
  \<open>float(s)\<close> on a string: surrounding whitespace is ignored, then the text is an
  optionally signed \<open>inf\<close>, \<open>infinity\<close> or \<open>nan\<close> in any case, or a decimal literal, which
  is converted with correct rounding.  Anything else raises \<open>ValueError\<close>.
\<close>

definition float_of_str :: "string \<Rightarrow> pyexc + pyfloat" where
  "float_of_str s =
     (case strip_underscores None (strip s) of
        None \<Rightarrow> Inl ValueError
      | Some u \<Rightarrow>
          (let (neg, body) = split_sign u
           in if lower body = ''inf'' \<or> lower body = ''infinity''
              then Inr (if neg then NInf else PInf)
              else if lower body = ''nan'' then Inr NaN
              else (case parse_decimal body of
                      None \<Rightarrow> Inl ValueError
                    | Some q \<Rightarrow> Inr (fl (if neg then - q else q)))))"

text \<open>
  The values the scripts pass to \<open>float\<close>: always a string; \<open>PyNone\<close> stands for an
  argument of a type that \<open>float\<close> rejects with \<open>TypeError\<close>.
\<close>

datatype pyval = PyStr string | PyNone

fun py_float :: "pyval \<Rightarrow> pyexc + pyfloat" where
  "py_float (PyStr s) = float_of_str s"
| "py_float PyNone = Inl TypeError"

text \<open>
  \<^verbatim>\<open>def parse_float(value_str):
    try:
        return float(value_str)
    except (ValueError, TypeError):
        return float('nan')\<close>
\<close>

definition parse_float :: "pyval \<Rightarrow> pyexc + pyfloat" where
  "parse_float value_str =
     (case py_float value_str of
        Inr x \<Rightarrow> Inr x
      | Inl e \<Rightarrow> if is_ValueError e \<or> e = TypeError then py_float (PyStr ''nan'') else Inl e)"

section \<open>Instruments, console and keyboard\<close>

text \<open>
  A command line sent to an instrument: a fixed text, or the text of an f-string with the
  formatted number kept as a value (\<^verbatim>\<open>f'VOLTage {v_set}'\<close> is \<open>CmdInt ''VOLTage'' v_set\<close>).
\<close>

datatype scpi = Cmd string | CmdInt string int | CmdFloat string pyfloat

datatype msg =
    Text string
  | SafetyLimits string
  | Identity string
  | Row int pyfloat pyfloat pyfloat pyfloat
  | ErrorOccurred pyexc

text \<open>
  Everything the scripts do to the outside, in the order they do it.  An event is
  recorded when the operation is attempted, whether it succeeds or raises.  The calls of
  \<open>time.sleep\<close> are left out: they neither fail nor return anything.
\<close>

datatype event =
    SockConnect
  | SockSend scpi
  | SockRecv
  | SockClose
  | VisaOpen
  | VisaClear
  | VisaWrite scpi
  | VisaQuery string
  | VisaClose
  | KbHit
  | GetCh
  | Print msg

text \<open>
  The outside world decides, from everything that happened so far, whether the next
  operation raises (\<open>fails\<close>), which text a successful read returns (\<open>reply\<close>: the decoded
  bytes of \<open>recv\<close>, the line returned by \<open>inst.query\<close>), and which key is waiting when
  \<open>msvcrt.kbhit()\<close> is called (\<open>key\<close>, \<open>None\<close> when no key was pressed).
\<close>

record world =
  fails :: "event list \<Rightarrow> event \<Rightarrow> bool"
  reply :: "event list \<Rightarrow> event \<Rightarrow> string"
  key :: "event list \<Rightarrow> char option"

type_synonym 'a action = "event list \<Rightarrow> (pyexc + 'a) \<times> event list"

definition perform :: "world \<Rightarrow> event \<Rightarrow> unit action" where
  "perform w ev tr = (if fails w tr ev then Inl OSError else Inr (), tr @ [ev])"

definition request :: "world \<Rightarrow> event \<Rightarrow> string action" where
  "request w ev tr = (if fails w tr ev then Inl OSError else Inr (reply w tr ev), tr @ [ev])"

definition say :: "msg \<Rightarrow> unit action" where
  "say m tr = (Inr (), tr @ [Print m])"

definition raise :: "pyexc \<Rightarrow> 'a action" where
  "raise e tr = (Inl e, tr)"

definition return :: "'a \<Rightarrow> 'a action" where
  "return x tr = (Inr x, tr)"

definition lift :: "pyexc + 'a \<Rightarrow> 'a action" where
  "lift r tr = (r, tr)"

text \<open>One statement after another: an exception of the first skips the second.\<close>

definition andthen :: "'a action \<Rightarrow> ('a \<Rightarrow> 'b action) \<Rightarrow> 'b action" where
  "andthen m f tr = (case m tr of (Inl e, tr') \<Rightarrow> (Inl e, tr') | (Inr x, tr') \<Rightarrow> f x tr')"

section \<open>Configuration\<close>

record config =
  simulator_instrument :: int
  voltage_start :: int
  voltage_stop :: int
  voltage_step :: int
  current_start :: pyfloat
  current_stop :: pyfloat
  current_step :: pyfloat

text \<open>The constants at the top of \<^verbatim>\<open>Control_Both.py\<close>.\<close>

definition default_config :: config where
  "default_config =
     \<lparr> simulator_instrument = 3,
       voltage_start = 100, voltage_stop = 150, voltage_step = 25,
       current_start = Fin 0, current_stop = Fin 10, current_step = fl (5 / 2) \<rparr>"

section \<open>Helpers of the scripts\<close>

text \<open>
  \<^verbatim>\<open>def send_query_socket(sock, query):
    sock.sendall((query + '\n').encode())
    response = sock.recv(4096).decode().strip().replace('\x00', '')
    return response\<close>
  \<open>send_query\<close> of \<^verbatim>\<open>NHR_control_test.py\<close> is the same function.
\<close>

definition send_query_socket :: "world \<Rightarrow> string \<Rightarrow> string action" where
  "send_query_socket w query =
     andthen (perform w (SockSend (Cmd query))) (\<lambda>_.
     andthen (request w SockRecv) (\<lambda>raw.
     return (remove_nul (strip raw))))"

definition send_query :: "world \<Rightarrow> string \<Rightarrow> string action" where
  "send_query w query_command =
     andthen (perform w (SockSend (Cmd query_command))) (\<lambda>_.
     andthen (request w SockRecv) (\<lambda>response.
     return (remove_nul (strip response))))"

text \<open>The table itself is console output only; a field that is no number is printed as text.\<close>

definition print_safety_limits :: "world \<Rightarrow> unit action" where
  "print_safety_limits w =
     andthen (send_query_socket w ''SOURce:SAFety?'') (\<lambda>settings_str.
     say (SafetyLimits settings_str))"

definition connect_grid_simulator :: "world \<Rightarrow> config \<Rightarrow> unit action" where
  "connect_grid_simulator w c =
     andthen (say (Text ''Connecting to Grid Simulator...'')) (\<lambda>_.
     andthen (perform w SockConnect) (\<lambda>_.
     andthen (perform w (SockSend (CmdInt ''INSTrument:NSELect'' (simulator_instrument c)))) (\<lambda>_.
     andthen (perform w (SockSend (Cmd ''SOURce:CURRent 20''))) (\<lambda>_.
     andthen (perform w (SockSend (Cmd ''SOURce:POWer 2500''))) (\<lambda>_.
     andthen (print_safety_limits w) (\<lambda>_.
     say (Text ''Grid Simulator connected and configured.'')))))))"

text \<open>
  \<^verbatim>\<open>error_string not in ["0", "OK"] and not error_string.startswith("0,")\<close>
\<close>

definition error_reported :: "string \<Rightarrow> bool" where
  "error_reported error_string =
     (error_string \<notin> set [''0'', ''OK''] \<and> \<not> startswith error_string ''0,'')"

definition connect_electronic_load :: "world \<Rightarrow> unit action" where
  "connect_electronic_load w =
     andthen (say (Text ''Connecting to Electronic Load...'')) (\<lambda>_.
     andthen (perform w VisaOpen) (\<lambda>_.
     andthen (perform w VisaClear) (\<lambda>_.
     andthen (perform w (VisaWrite (Cmd ''*RST''))) (\<lambda>_.
     andthen (perform w (VisaWrite (Cmd ''*CLS''))) (\<lambda>_.
     andthen (say (Text ''Configuring Load for AC Crest Factor (CF) Mode...'')) (\<lambda>_.
     andthen (perform w (VisaWrite (Cmd ''MODE ACF''))) (\<lambda>_.
     andthen (perform w (VisaWrite (Cmd ''CFACTor 1.414''))) (\<lambda>_.
     andthen (perform w (VisaWrite (Cmd ''PFACtor 1.0''))) (\<lambda>_.
     andthen (request w (VisaQuery ''SYSTem:ERRor?'')) (\<lambda>r.
     (let error_string = strip r
      in if error_reported error_string then raise (LoadSetupError error_string)
         else andthen (request w (VisaQuery ''*IDN?'')) (\<lambda>r'.
              say (Identity (strip r'))))))))))))))"

section \<open>The nested sweep of \<^verbatim>\<open>Control_Both.py\<close>\<close>

text \<open>
  \<open>range(start, stop, step)\<close> over Python integers; a zero step raises \<open>ValueError\<close>.
\<close>

function range_up :: "int \<Rightarrow> int \<Rightarrow> int \<Rightarrow> int list" where
  "range_up i stop step =
     (if 0 < step \<and> i < stop then i # range_up (i + step) stop step else [])"
  by pat_completeness auto
termination
  by (relation "measure (\<lambda>(i, stop, step). nat (stop - i))") auto

function range_down :: "int \<Rightarrow> int \<Rightarrow> int \<Rightarrow> int list" where
  "range_down i stop step =
     (if step < 0 \<and> stop < i then i # range_down (i + step) stop step else [])"
  by pat_completeness auto
termination
  by (relation "measure (\<lambda>(i, stop, step). nat (i - stop))") auto

declare range_up.simps [simp del] range_down.simps [simp del]

definition py_range :: "int \<Rightarrow> int \<Rightarrow> int \<Rightarrow> pyexc + int list" where
  "py_range start stop step =
     (if step = 0 then Inl ValueError
      else if 0 < step then Inr (range_up start stop step)
      else Inr (range_down start stop step))"

text \<open>
  \<^verbatim>\<open>msvcrt.kbhit() and msvcrt.getch().decode().lower() == 'q'\<close>:
  \<open>getch\<close> is called only when a key is waiting; a byte that is not ASCII does not
  decode.
\<close>

definition poll_quit :: "world \<Rightarrow> bool action" where
  "poll_quit w tr =
     (case key w tr of
        None \<Rightarrow> (Inr False, tr @ [KbHit])
      | Some k \<Rightarrow>
          (if 128 \<le> (of_char k :: nat) then Inl UnicodeDecodeError
           else Inr (lower [k] = ''q''),
           tr @ [KbHit, GetCh]))"

text \<open>
  \<^verbatim>\<open>if abs(readback_current - i_set) > 0.1:
    raise Exception(f"Failed to set current correctly! ...")\<close>
\<close>

definition verify_current :: "pyfloat \<Rightarrow> pyfloat \<Rightarrow> unit action" where
  "verify_current i_set readback_current =
     (if fgt (fabs (fsub readback_current i_set)) (fl (1 / 10))
      then raise (SetCurrentError i_set readback_current)
      else return ())"

text \<open>
  The body of the inner loop, in the four parts that its comments mark: the abort poll,
  the command sequence that sets the current, the readback with its check, and the
  measurements with the result line.
\<close>

definition hard_stop :: msg where
  "hard_stop = Text ''Hard stop requested by user!''"

text \<open>\<^verbatim>\<open>i_set * 1.5 if i_set > 0 else 0.1\<close>\<close>

definition peak_maximum :: "pyfloat \<Rightarrow> pyfloat" where
  "peak_maximum i_set = (if fgt i_set (Fin 0) then fmul i_set (fl (3 / 2)) else fl (1 / 10))"

definition set_current :: "world \<Rightarrow> pyfloat \<Rightarrow> unit action" where
  "set_current w i_set =
     andthen (perform w (VisaWrite (CmdFloat ''CURRent:PEAK:MAXimum:AC''
                (peak_maximum i_set)))) (\<lambda>_.
     andthen (perform w (VisaWrite (CmdFloat ''CURR'' i_set))) (\<lambda>_.
     perform w (VisaWrite (Cmd ''LOAD ON''))))"

definition read_back :: "world \<Rightarrow> pyfloat \<Rightarrow> unit action" where
  "read_back w i_set =
     andthen (request w (VisaQuery ''CURRent?'')) (\<lambda>r.
     andthen (lift (py_float (PyStr (strip r)))) (\<lambda>readback_current.
     verify_current i_set readback_current))"

definition take_measurements :: "world \<Rightarrow> int \<Rightarrow> pyfloat \<Rightarrow> unit action" where
  "take_measurements w v_set i_set =
     andthen (request w (VisaQuery ''MEASure:VOLTage?'')) (\<lambda>rv.
     andthen (lift (parse_float (PyStr (strip rv)))) (\<lambda>v_meas.
     andthen (request w (VisaQuery ''MEASure:CURRent?'')) (\<lambda>ri.
     andthen (lift (parse_float (PyStr (strip ri)))) (\<lambda>i_meas.
     andthen (request w (VisaQuery ''MEASure:POWer?'')) (\<lambda>rp.
     andthen (lift (parse_float (PyStr (strip rp)))) (\<lambda>p_meas.
     say (Row v_set i_set v_meas i_meas p_meas)))))))"

definition set_and_measure :: "world \<Rightarrow> int \<Rightarrow> pyfloat \<Rightarrow> unit action" where
  "set_and_measure w v_set i_set =
     andthen (set_current w i_set) (\<lambda>_.
     andthen (read_back w i_set) (\<lambda>_.
     take_measurements w v_set i_set))"

definition sweep_point :: "world \<Rightarrow> int \<Rightarrow> pyfloat \<Rightarrow> unit action" where
  "sweep_point w v_set i_set =
     andthen (poll_quit w) (\<lambda>quit.
     if quit then andthen (say hard_stop) (\<lambda>_. raise KeyboardInterrupt)
     else set_and_measure w v_set i_set)"

text \<open>
  \<^verbatim>\<open>while i_set <= STOP:
    body
    i_set += STEP\<close>
  The addition is a float addition, so the loop need not terminate: a run that never
  leaves the loop is \<open>None\<close>.
\<close>

partial_function (option) while_le ::
  "(pyfloat \<Rightarrow> 's \<Rightarrow> (pyexc + unit) \<times> 's) \<Rightarrow> pyfloat \<Rightarrow> pyfloat \<Rightarrow> pyfloat \<Rightarrow> 's
     \<Rightarrow> ((pyexc + unit) \<times> 's) option" where
  "while_le body stop step i_set s =
     (if fle i_set stop
      then (case body i_set s of
              (Inl e, s') \<Rightarrow> Some (Inl e, s')
            | (Inr _, s') \<Rightarrow> while_le body stop step (fadd i_set step) s')
      else Some (Inr (), s))"

declare while_le.simps [code]

definition current_sweep ::
  "world \<Rightarrow> config \<Rightarrow> int \<Rightarrow> pyfloat \<Rightarrow> event list \<Rightarrow> ((pyexc + unit) \<times> event list) option" where
  "current_sweep w c v_set i_set = while_le (sweep_point w v_set) (current_stop c) (current_step c) i_set"

definition separator :: msg where
  "separator = Text (replicate 68 (CHR ''-''))"

fun voltage_sweep ::
  "world \<Rightarrow> config \<Rightarrow> int list \<Rightarrow> event list \<Rightarrow> ((pyexc + unit) \<times> event list) option" where
  "voltage_sweep w c [] tr = Some (Inr (), tr)"
| "voltage_sweep w c (v_set # rest) tr =
     (case perform w (SockSend (CmdInt ''VOLTage'' v_set)) tr of
        (Inl e, tr1) \<Rightarrow> Some (Inl e, tr1)
      | (Inr _, tr1) \<Rightarrow>
          (case current_sweep w c v_set (current_start c) tr1 of
             None \<Rightarrow> None
           | Some (Inl e, tr2) \<Rightarrow> Some (Inl e, tr2)
           | Some (Inr _, tr2) \<Rightarrow> voltage_sweep w c rest (tr2 @ [Print separator])))"

definition completed :: msg where
  "completed = Text ''--- Sweep Completed Successfully ---''"

text \<open>The \<open>try\<close> block after both instruments are connected.\<close>

definition sweep_phase ::
  "world \<Rightarrow> config \<Rightarrow> event list \<Rightarrow> ((pyexc + unit) \<times> event list) option" where
  "sweep_phase w c tr =
     (case andthen (say (Text ''Preparing for test. Turning Grid Simulator ON.'')) (\<lambda>_.
           andthen (perform w (SockSend (Cmd ''OUTPut ON''))) (\<lambda>_.
           andthen (say (Text ''Press q at any time to stop the sweep and save results.'')) (\<lambda>_.
           andthen (say (Text ''--- Starting Nested V-I Sweep ---'')) (\<lambda>_.
           andthen (say (Text ''V Set (V) | I Set (A) | V Meas (V) | I Meas (A) | P Meas (W)'')) (\<lambda>_.
           andthen (say separator) (\<lambda>_.
           lift (py_range (voltage_start c) (voltage_stop c + 1) (voltage_step c)))))))) tr of
        (Inl e, tr1) \<Rightarrow> Some (Inl e, tr1)
      | (Inr v_range, tr1) \<Rightarrow>
          (case voltage_sweep w c v_range tr1 of
             None \<Rightarrow> None
           | Some (Inl e, tr2) \<Rightarrow> Some (Inl e, tr2)
           | Some (Inr _, tr2) \<Rightarrow> Some (say completed tr2)))"

text \<open>
  The \<open>try\<close> block.  Besides the outcome it returns whether \<open>simulator_socket\<close> and
  \<open>load_instrument\<close> have been assigned (they start as \<open>None\<close>, and a connect routine
  that raises assigns nothing).
\<close>

definition try_block ::
  "world \<Rightarrow> config \<Rightarrow> ((pyexc + unit) \<times> bool \<times> bool \<times> event list) option" where
  "try_block w c =
     (case connect_grid_simulator w c [] of
        (Inl e, tr) \<Rightarrow> Some (Inl e, False, False, tr)
      | (Inr _, tr) \<Rightarrow>
          (case connect_electronic_load w tr of
             (Inl e, tr1) \<Rightarrow> Some (Inl e, True, False, tr1)
           | (Inr _, tr1) \<Rightarrow>
               (case sweep_phase w c tr1 of
                  None \<Rightarrow> None
                | Some (r, tr2) \<Rightarrow> Some (r, True, True, tr2))))"

definition interrupted :: msg where
  "interrupted = Text ''User interrupted the test. Proceeding to save and shut down.''"

text \<open>\<open>except KeyboardInterrupt\<close> and \<open>except Exception as e\<close>: both only print.\<close>

definition except_clauses :: "pyexc + unit \<Rightarrow> event list \<Rightarrow> event list" where
  "except_clauses r tr =
     (case r of
        Inr _ \<Rightarrow> tr
      | Inl e \<Rightarrow> if e = KeyboardInterrupt then tr @ [Print interrupted]
                 else tr @ [Print (ErrorOccurred e)])"

text \<open>The \<open>finally\<close> block.  Nothing in it catches an exception.\<close>

definition safety_shutdown :: "world \<Rightarrow> bool \<Rightarrow> bool \<Rightarrow> unit action" where
  "safety_shutdown w simulator_socket load_instrument =
     andthen (say (Text ''Cleaning up and shutting down outputs...'')) (\<lambda>_.
     andthen (if simulator_socket
              then andthen (perform w (SockSend (Cmd ''VOLTage 0''))) (\<lambda>_.
                   andthen (perform w (SockSend (Cmd ''OUTPut OFF''))) (\<lambda>_.
                   andthen (perform w SockClose) (\<lambda>_.
                   say (Text ''Grid Simulator output OFF and connection closed.''))))
              else return ()) (\<lambda>_.
     if load_instrument
     then andthen (perform w (VisaWrite (Cmd ''LOAD OFF''))) (\<lambda>_.
          andthen (perform w (VisaWrite (Cmd ''CURRent 0''))) (\<lambda>_.
          andthen (perform w (VisaWrite (Cmd ''*RST''))) (\<lambda>_.
          andthen (perform w VisaClose) (\<lambda>_.
          say (Text ''Electronic Load OFF, Reset, and connection is closed.'')))))
     else return ()))"

text \<open>
  The whole script.  \<open>Inl e\<close> is an exception that leaves the script (it can only come
  from the \<open>finally\<close> block); \<open>None\<close> is a run that never ends.
\<close>

definition main :: "world \<Rightarrow> config \<Rightarrow> ((pyexc + unit) \<times> event list) option" where
  "main w c =
     (case try_block w c of
        None \<Rightarrow> None
      | Some (r, simulator_socket, load_instrument, tr) \<Rightarrow>
          Some (safety_shutdown w simulator_socket load_instrument (except_clauses r tr)))"

section \<open>Setup and cleanup of \<^verbatim>\<open>Control Load.py\<close>\<close>

definition connect_and_configure_load :: "world \<Rightarrow> unit action" where
  "connect_and_configure_load w =
     andthen (say (Text ''Connecting to instrument...'')) (\<lambda>_.
     andthen (perform w VisaOpen) (\<lambda>_.
     andthen (perform w VisaClear) (\<lambda>_.
     andthen (say (Text ''Step 1: Resetting instrument...'')) (\<lambda>_.
     andthen (perform w (VisaWrite (Cmd ''*RST''))) (\<lambda>_.
     andthen (perform w (VisaWrite (Cmd ''*CLS''))) (\<lambda>_.
     andthen (say (Text ''Step 2: Setting MODE to ACF...'')) (\<lambda>_.
     andthen (perform w (VisaWrite (Cmd ''MODE ACF''))) (\<lambda>_.
     andthen (say (Text ''Step 3: Setting AC parameters (CF and PF)...'')) (\<lambda>_.
     andthen (perform w (VisaWrite (CmdFloat ''CFACTor'' (fl (1414 / 1000))))) (\<lambda>_.
     andthen (perform w (VisaWrite (CmdFloat ''PFACtor'' (fl 1)))) (\<lambda>_.
     andthen (perform w (VisaWrite (CmdFloat ''CURR:PEAK:MAX:AC'' (fl 15)))) (\<lambda>_.
     andthen (say (Text ''Step 4: Checking for errors after setup...'')) (\<lambda>_.
     andthen (request w (VisaQuery ''SYSTem:ERRor?'')) (\<lambda>r.
     (let error_string = strip r
      in if error_reported error_string then raise (LoadSetupError error_string)
         else andthen (request w (VisaQuery ''*IDN?'')) (\<lambda>r'.
              say (Identity (strip r'))))))))))))))))))"

definition safety_cleanup :: "world \<Rightarrow> bool \<Rightarrow> unit action" where
  "safety_cleanup w load_instrument =
     (if load_instrument
      then andthen (say (Text ''Cleaning up and closing connection...'')) (\<lambda>_.
           andthen (perform w (VisaWrite (Cmd ''LOAD OFF''))) (\<lambda>_.
           andthen (perform w (VisaWrite (Cmd ''CURRent 0''))) (\<lambda>_.
           andthen (perform w (VisaWrite (Cmd ''*RST''))) (\<lambda>_.
           andthen (perform w VisaClose) (\<lambda>_.
           say (Text ''Load is OFF, Reset, and connection is closed.''))))))
      else return ())"

section \<open>Vocabulary of the statements\<close>

text \<open>
  \<open>succeed w tr evs\<close>: performed one after another after the history \<open>tr\<close>, none of
  the operations \<open>evs\<close> raises.  Console output and keyboard polls cannot raise.
\<close>

fun fallible :: "event \<Rightarrow> bool" where
  "fallible (Print m) = False"
| "fallible KbHit = False"
| "fallible GetCh = False"
| "fallible e = True"

fun succeed :: "world \<Rightarrow> event list \<Rightarrow> event list \<Rightarrow> bool" where
  "succeed w tr [] = True"
| "succeed w tr (e # es) = ((fallible e \<longrightarrow> \<not> fails w tr e) \<and> succeed w (tr @ [e]) es)"

text \<open>
  \<open>attempt w evs\<close>: the operations \<open>evs\<close> performed in order up to and including the
  first one that raises.
\<close>

fun attempt :: "world \<Rightarrow> event list \<Rightarrow> unit action" where
  "attempt w [] tr = (Inr (), tr)"
| "attempt w (e # es) tr =
     (if fallible e \<and> fails w tr e then (Inl OSError, tr @ [e]) else attempt w es (tr @ [e]))"

text \<open>The steps of the two \<open>finally\<close> blocks, in program order.\<close>

definition simulator_steps :: "event list" where
  "simulator_steps =
     [SockSend (Cmd ''VOLTage 0''), SockSend (Cmd ''OUTPut OFF''), SockClose,
      Print (Text ''Grid Simulator output OFF and connection closed.'')]"

definition load_steps :: "event list" where
  "load_steps =
     [VisaWrite (Cmd ''LOAD OFF''), VisaWrite (Cmd ''CURRent 0''), VisaWrite (Cmd ''*RST''),
      VisaClose, Print (Text ''Electronic Load OFF, Reset, and connection is closed.'')]"

definition shutdown_steps :: "bool \<Rightarrow> bool \<Rightarrow> event list" where
  "shutdown_steps simulator_socket load_instrument =
     Print (Text ''Cleaning up and shutting down outputs...'')
       # (if simulator_socket then simulator_steps else [])
       @ (if load_instrument then load_steps else [])"

definition cleanup_steps :: "bool \<Rightarrow> event list" where
  "cleanup_steps load_instrument =
     (if load_instrument
      then [Print (Text ''Cleaning up and closing connection...''),
            VisaWrite (Cmd ''LOAD OFF''), VisaWrite (Cmd ''CURRent 0''), VisaWrite (Cmd ''*RST''),
            VisaClose, Print (Text ''Load is OFF, Reset, and connection is closed.'')]
      else [])"

text \<open>The operations of the load setup up to and including the error-status query.\<close>

definition setup_steps :: "event list" where
  "setup_steps =
     [Print (Text ''Connecting to Electronic Load...''), VisaOpen, VisaClear,
      VisaWrite (Cmd ''*RST''), VisaWrite (Cmd ''*CLS''),
      Print (Text ''Configuring Load for AC Crest Factor (CF) Mode...''),
      VisaWrite (Cmd ''MODE ACF''), VisaWrite (Cmd ''CFACTor 1.414''),
      VisaWrite (Cmd ''PFACtor 1.0''), VisaQuery ''SYSTem:ERRor?'']"

definition configure_steps :: "event list" where
  "configure_steps =
     [Print (Text ''Connecting to instrument...''), VisaOpen, VisaClear,
      Print (Text ''Step 1: Resetting instrument...''),
      VisaWrite (Cmd ''*RST''), VisaWrite (Cmd ''*CLS''),
      Print (Text ''Step 2: Setting MODE to ACF...''),
      VisaWrite (Cmd ''MODE ACF''),
      Print (Text ''Step 3: Setting AC parameters (CF and PF)...''),
      VisaWrite (CmdFloat ''CFACTor'' (fl (1414 / 1000))),
      VisaWrite (CmdFloat ''PFACtor'' (fl 1)),
      VisaWrite (CmdFloat ''CURR:PEAK:MAX:AC'' (fl 15)),
      Print (Text ''Step 4: Checking for errors after setup...''),
      VisaQuery ''SYSTem:ERRor?'']"

text \<open>
  What only the sweep itself produces: switching the simulator output on, voltage and
  current setpoints, load-on, readback and measurement queries, keyboard polls and
  result lines.
\<close>

fun sweep_event :: "event \<Rightarrow> bool" where
  "sweep_event (SockSend (Cmd s)) = (s = ''OUTPut ON'')"
| "sweep_event (SockSend (CmdInt s v)) = (s = ''VOLTage'')"
| "sweep_event (VisaWrite (CmdFloat s x)) = True"
| "sweep_event (VisaWrite (Cmd s)) = (s = ''LOAD ON'')"
| "sweep_event (VisaQuery q) =
     (q \<in> set [''CURRent?'', ''MEASure:VOLTage?'', ''MEASure:CURRent?'', ''MEASure:POWer?''])"
| "sweep_event KbHit = True"
| "sweep_event GetCh = True"
| "sweep_event (Print (Row v i vm im pm)) = True"
| "sweep_event e = False"

text \<open>The command lines written to the load, in order.\<close>

fun load_write :: "event \<Rightarrow> scpi option" where
  "load_write (VisaWrite c) = Some c"
| "load_write e = None"

definition load_writes :: "event list \<Rightarrow> scpi list" where
  "load_writes evs = List.map_filter load_write evs"

text \<open>
  The milestones of a sweep, in order: voltage setpoints, current setpoints, result
  lines and the completion message.
\<close>

datatype milestone = SetV int | SetI pyfloat | Result int pyfloat | Completed

fun milestone_of :: "event \<Rightarrow> milestone option" where
  "milestone_of (SockSend (CmdInt s v)) = (if s = ''VOLTage'' then Some (SetV v) else None)"
| "milestone_of (VisaWrite (CmdFloat s x)) = (if s = ''CURR'' then Some (SetI x) else None)"
| "milestone_of (Print (Row v i vm im pm)) = Some (Result v i)"
| "milestone_of (Print (Text s)) = (if Text s = completed then Some Completed else None)"
| "milestone_of e = None"

definition milestones :: "event list \<Rightarrow> milestone list" where
  "milestones evs = List.map_filter milestone_of evs"

text \<open>The key waiting at the next poll is \<open>q\<close> or \<open>Q\<close>.\<close>

definition quit_pending :: "world \<Rightarrow> event list \<Rightarrow> bool" where
  "quit_pending w tr =
     (case key w tr of
        None \<Rightarrow> False
      | Some k \<Rightarrow> (of_char k :: nat) < 128 \<and> lower [k] = ''q'')"

text \<open>The loop body run at the points of a list, stopping at the first exception.\<close>

fun run_points ::
  "(pyfloat \<Rightarrow> 's \<Rightarrow> (pyexc + unit) \<times> 's) \<Rightarrow> pyfloat list \<Rightarrow> 's \<Rightarrow> (pyexc + unit) \<times> 's" where
  "run_points body [] s = (Inr (), s)"
| "run_points body (x # xs) s =
     (case body x s of
        (Inl e, s') \<Rightarrow> (Inl e, s')
      | (Inr _, s') \<Rightarrow> run_points body xs s')"


text \<open>The \<open>k\<close>-th value of an axis computed exactly.\<close>

definition axis_value :: "rat \<Rightarrow> rat \<Rightarrow> nat \<Rightarrow> rat" where
  "axis_value start step k = start + of_nat k * step"

text \<open>The readback check passes whenever it follows the writing of the setpoint \<open>i\<close>.\<close>

definition readback_passes :: "world \<Rightarrow> pyfloat \<Rightarrow> bool" where
  "readback_passes w i =
     (\<forall>tr. fst (read_back w i (tr @ [VisaWrite (CmdFloat ''CURR'' i), VisaWrite (Cmd ''LOAD ON'')]))
            = Inr ())"

text \<open>
  C9 in the words of the specification: trailing whitespace stripped, null bytes removed,
  nothing else.
\<close>

definition cleaned_as_specified :: "string \<Rightarrow> string" where
  "cleaned_as_specified raw = remove_nul (rstrip raw)"

subsection \<open>Concrete worlds\<close>

text \<open>
  In \<open>leading_space_world\<close> every read returns a blank followed by \<open>5\<close>; in
  \<open>nul_terminated_world\<close> every read returns blank, \<open>5\<close>, a null byte and a newline.
\<close>

definition leading_space_world :: world where
  "leading_space_world =
     \<lparr> fails = (\<lambda>_ _. False), reply = (\<lambda>_ _. '' 5''), key = (\<lambda>_. None) \<rparr>"

definition nul_terminated_world :: world where
  "nul_terminated_world =
     \<lparr> fails = (\<lambda>_ _. False),
       reply = (\<lambda>_ _. [CHR '' '', CHR ''5'', CHR 0x00, CHR 0x0A]),
       key = (\<lambda>_. None) \<rparr>"

text \<open>
  A well-behaved bench: nothing fails, no key is pressed, the load reports no error,
  reads back the last current setpoint that was written, and measures \<open>1.0\<close>.
\<close>

definition last_setpoint :: "event list \<Rightarrow> pyfloat" where
  "last_setpoint tr =
     foldl (\<lambda>x e. case milestone_of e of Some (SetI y) \<Rightarrow> y | _ \<Rightarrow> x) NaN tr"

definition setpoint_text :: "pyfloat \<Rightarrow> string" where
  "setpoint_text x =
     (if x = Fin 0 then ''0.0''
      else if x = Fin (5 / 2) then ''2.5''
      else if x = Fin 5 then ''5.0''
      else if x = Fin (15 / 2) then ''7.5''
      else if x = Fin 10 then ''10.0''
      else if x = Fin (2 ^ 53) then ''9007199254740992.0''
      else ''nan'')"

definition bench_reply :: "event list \<Rightarrow> event \<Rightarrow> string" where
  "bench_reply tr ev =
     (if ev = VisaQuery ''SYSTem:ERRor?'' then ''0,No error''
      else if ev = VisaQuery ''CURRent?'' then setpoint_text (last_setpoint tr)
      else ''1.0'')"

definition bench_world :: world where
  "bench_world = \<lparr> fails = (\<lambda>_ _. False), reply = bench_reply, key = (\<lambda>_. None) \<rparr>"

text \<open>
  The same bench with a load that answers the setpoint query with \<open>nan\<close>, and with one
  that answers it with \<open>ERR\<close>.
\<close>

definition nan_readback_world :: world where
  "nan_readback_world =
     \<lparr> fails = (\<lambda>_ _. False),
       reply = (\<lambda>tr ev. if ev = VisaQuery ''CURRent?'' then ''nan'' else bench_reply tr ev),
       key = (\<lambda>_. None) \<rparr>"


text \<open>The instrument operations of one sweep point after the poll, in order.\<close>

definition point_ops :: "pyfloat \<Rightarrow> event list" where
  "point_ops i =
     [VisaWrite (CmdFloat ''CURRent:PEAK:MAXimum:AC''
        (peak_maximum i)),
      VisaWrite (CmdFloat ''CURR'' i), VisaWrite (Cmd ''LOAD ON''),
      VisaQuery ''CURRent?'', VisaQuery ''MEASure:VOLTage?'', VisaQuery ''MEASure:CURRent?'',
      VisaQuery ''MEASure:POWer?'']"

text \<open>
  A bench on which sending \<open>VOLTage 0\<close> to the simulator and resetting the load both
  raise, and one whose load reports an error after the configuration.
\<close>

definition broken_world :: world where
  "broken_world =
     \<lparr> fails = (\<lambda>tr ev. ev = SockSend (Cmd ''VOLTage 0'') \<or> ev = VisaWrite (Cmd ''*RST'')),
       reply = bench_reply,
       key = (\<lambda>_. None) \<rparr>"

definition error_world :: world where
  "error_world =
     \<lparr> fails = (\<lambda>_ _. False),
       reply = (\<lambda>tr ev. if ev = VisaQuery ''SYSTem:ERRor?'' then ''-113,Undefined header ''
                        else bench_reply tr ev),
       key = (\<lambda>_. None) \<rparr>"


text \<open>
  The milestones of one voltage row of the configured sweep: the voltage setpoint, then
  for each of the five currents its setpoint and its result line.
\<close>

definition grid_milestones :: "int \<Rightarrow> milestone list" where
  "grid_milestones v =
     SetV v # concat (map (\<lambda>i. [SetI i, Result v i]) [Fin 0, Fin (5 / 2), Fin 5, Fin (15 / 2), Fin 10])"

section \<open>Evaluation and basic facts\<close>

lemma floor_rat_numeral [simp]:
  "\<lfloor>numeral a / numeral b :: rat\<rfloor> = numeral a div numeral b"
  "\<lfloor>1 / numeral b :: rat\<rfloor> = 1 div numeral b"
  "\<lfloor>- (numeral a / numeral b) :: rat\<rfloor> = - numeral a div numeral b"
  "\<lfloor>- (1 / numeral b) :: rat\<rfloor> = - 1 div numeral b"
     apply (metis floor_divide_of_int_eq of_int_numeral)
    apply (metis floor_divide_of_int_eq of_int_1 of_int_numeral)
   apply (metis divide_minus_left floor_divide_of_int_eq of_int_neg_numeral of_int_numeral)
  apply (metis divide_minus_left floor_divide_of_int_eq of_int_minus of_int_1 of_int_numeral)
  done

lemma ceiling_rat_numeral [simp]:
  "\<lceil>numeral a / numeral b :: rat\<rceil> = - (- numeral a div numeral b)"
  "\<lceil>1 / numeral b :: rat\<rceil> = - (- 1 div numeral b)"
  using ceiling_divide_eq_div [of "numeral a" "numeral b", where ?'a = rat]
    ceiling_divide_eq_div [of 1 "numeral b", where ?'a = rat]
  by simp_all

lemmas fl_eval = fl_def floor_log2_def round_half_even_def bit_length.simps Let_def

lemmas str_eval = strip_def lstrip_def rstrip_def is_space_def is_digit_def digits_value_def
  lower_def lower_char_def split_sign_def parse_decimal_def float_of_str_def remove_nul_def
  startswith_def

lemmas action_defs = perform_def request_def say_def raise_def return_def lift_def andthen_def

lemma float_of_str_nan: "float_of_str ''nan'' = Inr NaN"
  by (simp add: str_eval)

lemma float_of_str_error: "float_of_str s = Inl e \<Longrightarrow> e = ValueError"
  by (auto simp: float_of_str_def Let_def split: option.splits prod.splits if_splits)

lemma py_float_error: "py_float v = Inl e \<Longrightarrow> e = ValueError \<or> e = TypeError"
  by (cases v) (auto dest: float_of_str_error)

lemma lstrip_decomp: "s = takeWhile is_space s @ lstrip s"
  by (simp add: lstrip_def)

lemma rstrip_decomp: "t = rstrip t @ rev (takeWhile is_space (rev t))"
proof -
  have "rev (takeWhile is_space (rev t) @ dropWhile is_space (rev t)) = t"
    by (simp only: takeWhile_dropWhile_id rev_rev_ident)
  then show ?thesis
    by (simp only: rstrip_def rev_append)
qed

lemma strip_decomp:
  "\<exists>a b. s = a @ strip s @ b \<and> list_all is_space a \<and> list_all is_space b"
proof -
  let ?a = "takeWhile is_space s"
  let ?b = "rev (takeWhile is_space (rev (lstrip s)))"
  have "s = ?a @ lstrip s" by (rule lstrip_decomp)
  also have "lstrip s = strip s @ ?b"
    unfolding strip_def by (rule rstrip_decomp)
  finally have "s = ?a @ strip s @ ?b" .
  moreover have "list_all is_space ?a"
    by (simp add: list_all_iff) (meson set_takeWhileD)
  moreover have "list_all is_space ?b"
    by (simp add: list_all_iff) (meson set_takeWhileD)
  ultimately show ?thesis by blast
qed

lemma strip_ends:
  assumes "strip s \<noteq> []"
  shows "\<not> is_space (hd (strip s))" and "\<not> is_space (last (strip s))"
proof -
  let ?t = "lstrip s"
  from assms have d: "dropWhile is_space (rev ?t) \<noteq> []"
    by (simp add: strip_def rstrip_def)
  then have t: "?t \<noteq> []" by auto
  have "last (strip s) = hd (dropWhile is_space (rev ?t))"
    using d by (simp add: strip_def rstrip_def last_rev)
  then show "\<not> is_space (last (strip s))"
    using d hd_dropWhile [of is_space "rev ?t"] by simp
  have "?t = strip s @ rev (takeWhile is_space (rev ?t))"
    unfolding strip_def by (rule rstrip_decomp)
  then have "hd ?t = hd (strip s)"
    using assms by (metis hd_append2)
  moreover have "\<not> is_space (hd ?t)"
    using t hd_dropWhile [of is_space s] by (simp add: lstrip_def)
  ultimately show "\<not> is_space (hd (strip s))" by simp
qed

text \<open>Sequencing after a primitive operation, as a conditional.\<close>

lemma andthen_perform:
  "andthen (perform w ev) f tr =
     (if fails w tr ev then (Inl OSError, tr @ [ev]) else f () (tr @ [ev]))"
  by (simp add: andthen_def perform_def)

lemma andthen_request:
  "andthen (request w ev) f tr =
     (if fails w tr ev then (Inl OSError, tr @ [ev]) else f (reply w tr ev) (tr @ [ev]))"
  by (simp add: andthen_def request_def)

lemma andthen_say: "andthen (say m) f tr = f () (tr @ [Print m])"
  by (simp add: andthen_def say_def)

lemma andthen_lift: "andthen (lift r) f tr = (case r of Inl e \<Rightarrow> (Inl e, tr) | Inr x \<Rightarrow> f x tr)"
  by (simp add: andthen_def lift_def split: sum.splits)

lemma andthen_return: "andthen (return x) f tr = f x tr"
  by (simp add: andthen_def return_def)

lemma andthen_raise: "andthen (raise e) f tr = (Inl e, tr)"
  by (simp add: andthen_def raise_def)

lemmas andthen_simps = andthen_perform andthen_request andthen_say andthen_lift andthen_return
  andthen_raise

lemmas bench_eval = bench_world_def bench_reply_def setpoint_text_def last_setpoint_def

lemmas body_eval = sweep_point_def poll_quit_def set_and_measure_def set_current_def
  peak_maximum_def read_back_def
  take_measurements_def verify_current_def action_defs
  parse_float_def is_ValueError_def fsub_def fgt_def

lemma fl_three_halves: "fl (3 / 2) = Fin (3 / 2)"
  by (simp add: fl_eval)

lemma fl_tenth: "fl (1 / 10) = Fin (3602879701896397 / 36028797018963968)"
  by (simp add: fl_eval)

lemma parse_float_cases:
  "parse_float v = (case py_float v of Inr x \<Rightarrow> Inr x | Inl e \<Rightarrow> Inr NaN)"
  using py_float_error [of v]
  by (auto simp: parse_float_def is_ValueError_def float_of_str_nan split: sum.splits)

lemma parse_float_Inr: "\<exists>x. parse_float v = Inr x"
  by (simp add: parse_float_cases split: sum.splits)

lemma load_writes_simps [simp]:
  "load_writes [] = []"
  "load_writes (e # evs) = (case load_write e of None \<Rightarrow> load_writes evs | Some c \<Rightarrow> c # load_writes evs)"
  by (simp_all add: load_writes_def List.map_filter_simps split: option.splits)

lemma load_writes_append [simp]: "load_writes (xs @ ys) = load_writes xs @ load_writes ys"
  by (induction xs) (simp_all split: option.splits)

lemma milestones_simps [simp]:
  "milestones [] = []"
  "milestones (e # evs) = (case milestone_of e of None \<Rightarrow> milestones evs | Some c \<Rightarrow> c # milestones evs)"
  by (simp_all add: milestones_def List.map_filter_simps split: option.splits)

lemma milestones_append [simp]: "milestones (xs @ ys) = milestones xs @ milestones ys"
  by (induction xs) (simp_all split: option.splits)

text \<open>The parts of the loop body, as conditionals.\<close>

lemma set_current_eq:
  "set_current w i tr =
     (let c1 = VisaWrite (CmdFloat ''CURRent:PEAK:MAXimum:AC''
                 (peak_maximum i));
          c2 = VisaWrite (CmdFloat ''CURR'' i);
          c3 = VisaWrite (Cmd ''LOAD ON'')
      in if fails w tr c1 then (Inl OSError, tr @ [c1])
         else if fails w (tr @ [c1]) c2 then (Inl OSError, tr @ [c1, c2])
         else if fails w (tr @ [c1, c2]) c3 then (Inl OSError, tr @ [c1, c2, c3])
         else (Inr (), tr @ [c1, c2, c3]))"
  by (simp add: set_current_def andthen_simps perform_def Let_def)

lemma read_back_eq:
  "read_back w i tr =
     (if fails w tr (VisaQuery ''CURRent?'') then (Inl OSError, tr @ [VisaQuery ''CURRent?''])
      else (case float_of_str (strip (reply w tr (VisaQuery ''CURRent?''))) of
              Inl e \<Rightarrow> (Inl ValueError, tr @ [VisaQuery ''CURRent?''])
            | Inr rb \<Rightarrow>
                if fgt (fabs (fsub rb i)) (fl (1 / 10))
                then (Inl (SetCurrentError i rb), tr @ [VisaQuery ''CURRent?''])
                else (Inr (), tr @ [VisaQuery ''CURRent?''])))"
  by (auto simp: read_back_def andthen_simps verify_current_def raise_def return_def
      dest: float_of_str_error split: sum.splits)

lemma take_measurements_eq:
  "\<not> fails w tr (VisaQuery ''MEASure:VOLTage?'') \<Longrightarrow>
   \<not> fails w (tr @ [VisaQuery ''MEASure:VOLTage?'']) (VisaQuery ''MEASure:CURRent?'') \<Longrightarrow>
   \<not> fails w (tr @ [VisaQuery ''MEASure:VOLTage?'', VisaQuery ''MEASure:CURRent?''])
       (VisaQuery ''MEASure:POWer?'') \<Longrightarrow>
   \<exists>vm im pm. take_measurements w v i tr =
     (Inr (), tr @ [VisaQuery ''MEASure:VOLTage?'', VisaQuery ''MEASure:CURRent?'',
                    VisaQuery ''MEASure:POWer?'', Print (Row v i vm im pm)])"
  using parse_float_Inr
  by (simp add: take_measurements_def andthen_simps say_def parse_float_cases split: sum.splits)

lemma take_measurements_shape:
  "\<exists>evs. take_measurements w v i tr = (fst (take_measurements w v i tr), tr @ evs)
      \<and> load_writes evs = [] \<and> KbHit \<notin> set evs
      \<and> (fst (take_measurements w v i tr) = Inr () \<or> fst (take_measurements w v i tr) = Inl OSError)"
  by (simp add: take_measurements_def andthen_simps say_def parse_float_cases split: sum.splits)

lemma andthen_cases:
  "andthen m f tr = (case m tr of (Inl e, tr') \<Rightarrow> (Inl e, tr') | (Inr x, tr') \<Rightarrow> f x tr')"
  by (simp add: andthen_def)

text \<open>What the body appends after the poll.\<close>

lemma set_and_measure_shape:
  "\<exists>evs. set_and_measure w v i tr = (fst (set_and_measure w v i tr), tr @ evs)
      \<and> prefix (load_writes evs)
           [CmdFloat ''CURRent:PEAK:MAXimum:AC''
              (peak_maximum i),
            CmdFloat ''CURR'' i, Cmd ''LOAD ON'']
      \<and> (fst (set_and_measure w v i tr) = Inr () \<longrightarrow>
           load_writes evs =
             [CmdFloat ''CURRent:PEAK:MAXimum:AC''
                (peak_maximum i),
              CmdFloat ''CURR'' i, Cmd ''LOAD ON''])
      \<and> KbHit \<notin> set evs
      \<and> fst (set_and_measure w v i tr) \<noteq> Inl KeyboardInterrupt"
proof -
  let ?c1 = "VisaWrite (CmdFloat ''CURRent:PEAK:MAXimum:AC''
                 (peak_maximum i))"
  let ?c2 = "VisaWrite (CmdFloat ''CURR'' i)"
  let ?c3 = "VisaWrite (Cmd ''LOAD ON'')"
  let ?t3 = "tr @ [?c1, ?c2, ?c3]"
  let ?q = "VisaQuery ''CURRent?''"
  show ?thesis
  proof (cases "fst (set_current w i tr) = Inr ()")
    case False
    then show ?thesis
      by (auto simp: set_and_measure_def andthen_cases set_current_eq Let_def split: if_splits)
  next
    case True
    then have sc: "set_current w i tr = (Inr (), ?t3)"
      by (auto simp: set_current_eq Let_def split: if_splits)
    show ?thesis
    proof (cases "fst (read_back w i ?t3) = Inr ()")
      case False
      then show ?thesis
        by (auto simp: set_and_measure_def andthen_cases sc read_back_eq split: if_splits sum.splits)
    next
      case True
      then have rb: "read_back w i ?t3 = (Inr (), ?t3 @ [?q])"
        by (auto simp: read_back_eq split: if_splits sum.splits)
      obtain evs where tm: "take_measurements w v i (?t3 @ [?q]) =
            (fst (take_measurements w v i (?t3 @ [?q])), (?t3 @ [?q]) @ evs)"
        and lw: "load_writes evs = []" and kb: "KbHit \<notin> set evs"
        and r: "fst (take_measurements w v i (?t3 @ [?q])) = Inr ()
                \<or> fst (take_measurements w v i (?t3 @ [?q])) = Inl OSError"
        using take_measurements_shape [of w v i "?t3 @ [?q]"] by blast
      have sm: "set_and_measure w v i tr = take_measurements w v i (?t3 @ [?q])"
        by (simp add: set_and_measure_def andthen_cases sc rb)
      show ?thesis
        apply (rule exI [where x = "[?c1, ?c2, ?c3, ?q] @ evs"])
        using tm lw kb r by (auto simp: sm)
    qed
  qed
qed

lemma sweep_point_eq:
  "sweep_point w v i tr =
     (case key w tr of
        None \<Rightarrow> set_and_measure w v i (tr @ [KbHit])
      | Some k \<Rightarrow>
          if 128 \<le> (of_char k :: nat) then (Inl UnicodeDecodeError, tr @ [KbHit, GetCh])
          else if lower [k] = ''q'' then (Inl KeyboardInterrupt, tr @ [KbHit, GetCh, Print hard_stop])
          else set_and_measure w v i (tr @ [KbHit, GetCh]))"
  by (simp add: sweep_point_def andthen_def poll_quit_def say_def raise_def split: option.splits)

lemma sweep_point_quit:
  "quit_pending w tr \<Longrightarrow>
   sweep_point w v i tr = (Inl KeyboardInterrupt, tr @ [KbHit, GetCh, Print hard_stop])"
  by (auto simp: sweep_point_eq quit_pending_def split: option.splits)

lemma sweep_point_shape:
  "\<exists>evs. sweep_point w v i tr = (fst (sweep_point w v i tr), tr @ KbHit # evs)
      \<and> KbHit \<notin> set evs
      \<and> prefix (load_writes evs)
           [CmdFloat ''CURRent:PEAK:MAXimum:AC''
              (peak_maximum i),
            CmdFloat ''CURR'' i, Cmd ''LOAD ON'']
      \<and> (fst (sweep_point w v i tr) = Inr () \<longrightarrow>
           load_writes evs =
             [CmdFloat ''CURRent:PEAK:MAXimum:AC''
                (peak_maximum i),
              CmdFloat ''CURR'' i, Cmd ''LOAD ON''])
      \<and> (fst (sweep_point w v i tr) = Inl KeyboardInterrupt \<longleftrightarrow> quit_pending w tr)"
proof (cases "key w tr")
  case None
  obtain evs where "set_and_measure w v i (tr @ [KbHit])
        = (fst (set_and_measure w v i (tr @ [KbHit])), (tr @ [KbHit]) @ evs)"
    and "prefix (load_writes evs)
           [CmdFloat ''CURRent:PEAK:MAXimum:AC''
              (peak_maximum i),
            CmdFloat ''CURR'' i, Cmd ''LOAD ON'']"
    and "fst (set_and_measure w v i (tr @ [KbHit])) = Inr () \<longrightarrow>
           load_writes evs =
             [CmdFloat ''CURRent:PEAK:MAXimum:AC''
                (peak_maximum i),
              CmdFloat ''CURR'' i, Cmd ''LOAD ON'']"
    and "KbHit \<notin> set evs"
    and "fst (set_and_measure w v i (tr @ [KbHit])) \<noteq> Inl KeyboardInterrupt"
    using set_and_measure_shape [of w v i "tr @ [KbHit]"] by blast
  then show ?thesis
    using None
    by (intro exI [where x = evs]) (auto simp: sweep_point_eq quit_pending_def)
next
  case (Some k)
  show ?thesis
  proof (cases "128 \<le> (of_char k :: nat) \<or> lower [k] = ''q''")
    case True
    then show ?thesis
      using Some by (auto simp: sweep_point_eq quit_pending_def)
  next
    case False
    obtain evs where "set_and_measure w v i (tr @ [KbHit, GetCh])
          = (fst (set_and_measure w v i (tr @ [KbHit, GetCh])), (tr @ [KbHit, GetCh]) @ evs)"
      and "prefix (load_writes evs)
             [CmdFloat ''CURRent:PEAK:MAXimum:AC''
                (peak_maximum i),
              CmdFloat ''CURR'' i, Cmd ''LOAD ON'']"
      and "fst (set_and_measure w v i (tr @ [KbHit, GetCh])) = Inr () \<longrightarrow>
             load_writes evs =
               [CmdFloat ''CURRent:PEAK:MAXimum:AC''
                  (peak_maximum i),
                CmdFloat ''CURR'' i, Cmd ''LOAD ON'']"
      and "KbHit \<notin> set evs"
      and "fst (set_and_measure w v i (tr @ [KbHit, GetCh])) \<noteq> Inl KeyboardInterrupt"
      using set_and_measure_shape [of w v i "tr @ [KbHit, GetCh]"] by blast
    then show ?thesis
      using Some False
      by (intro exI [where x = "GetCh # evs"]) (auto simp: sweep_point_eq quit_pending_def)
  qed
qed

lemma flt_Fin_left: "y \<noteq> NaN \<Longrightarrow> \<not> flt y (Fin a) \<longleftrightarrow> fle (Fin a) y"
  by (cases y) (auto simp: fle_def)

lemma fle_iff_not_fgt: "x \<noteq> NaN \<Longrightarrow> y \<noteq> NaN \<Longrightarrow> fle x y \<longleftrightarrow> \<not> fgt x y"
  by (cases x; cases y) (auto simp: fle_def fgt_def)

lemma fabs_NaN: "fabs x = NaN \<longleftrightarrow> x = NaN"
  by (cases x) auto

lemma verify_current_iff:
  "fsub rb i \<noteq> NaN \<Longrightarrow>
   fst (verify_current i rb tr) = Inr () \<longleftrightarrow> fle (fabs (fsub rb i)) (fl (1 / 10))"
  by (simp add: verify_current_def raise_def return_def fle_iff_not_fgt fabs_NaN fl_tenth)




lemma andthen_assoc: "andthen (andthen m f) g = andthen m (\<lambda>x. andthen (f x) g)"
  by (rule ext) (simp add: andthen_def split: prod.splits sum.splits)

lemma attempt_succeed: "succeed w tr es \<Longrightarrow> attempt w es tr = (Inr (), tr @ es)"
  by (induction es arbitrary: tr) auto

lemma attempt_fail:
  "\<not> succeed w tr es \<Longrightarrow>
   \<exists>n < length es. attempt w es tr = (Inl OSError, tr @ take (Suc n) es)
      \<and> succeed w tr (take n es) \<and> fallible (es ! n) \<and> fails w (tr @ take n es) (es ! n)"
proof (induction es arbitrary: tr)
  case Nil
  then show ?case by simp
next
  case (Cons e es)
  show ?case
  proof (cases "fallible e \<and> fails w tr e")
    case True
    then show ?thesis
      by (intro exI [where x = 0]) simp
  next
    case False
    with Cons.prems have "\<not> succeed w (tr @ [e]) es" by auto
    from Cons.IH [OF this] obtain n where n: "n < length es"
      "attempt w es (tr @ [e]) = (Inl OSError, (tr @ [e]) @ take (Suc n) es)"
      "succeed w (tr @ [e]) (take n es)" "fallible (es ! n)"
      "fails w ((tr @ [e]) @ take n es) (es ! n)"
      by blast
    with False show ?thesis
      by (intro exI [where x = "Suc n"]) auto
  qed
qed

lemma attempt_extends: "\<exists>n \<le> length es. snd (attempt w es tr) = tr @ take n es"
proof (cases "succeed w tr es")
  case True
  then show ?thesis
    by (intro exI [where x = "length es"]) (simp add: attempt_succeed)
next
  case False
  from attempt_fail [OF this] obtain n where "n < length es"
    "attempt w es tr = (Inl OSError, tr @ take (Suc n) es)" by blast
  then show ?thesis
    by (intro exI [where x = "Suc n"]) simp
qed

lemma safety_shutdown_attempt:
  "safety_shutdown w s l tr = attempt w (shutdown_steps s l) tr"
  by (cases s; cases l)
    (simp_all add: safety_shutdown_def shutdown_steps_def simulator_steps_def load_steps_def
      andthen_assoc andthen_simps say_def perform_def return_def)

lemma safety_cleanup_attempt:
  "safety_cleanup w l tr = attempt w (cleanup_steps l) tr"
  by (cases l)
    (simp_all add: safety_cleanup_def cleanup_steps_def
      andthen_assoc andthen_simps say_def perform_def return_def)

lemmas steps_eval = shutdown_steps_def simulator_steps_def load_steps_def cleanup_steps_def

lemma error_reported_iff:
  "error_reported s \<longleftrightarrow> s \<noteq> ''0'' \<and> s \<noteq> ''OK'' \<and> \<not> startswith s ''0,''"
  by (auto simp: error_reported_def)

lemma attempt_raises_OSError: "\<not> succeed w tr es \<Longrightarrow> fst (attempt w es tr) = Inl OSError"
  using attempt_fail [of w tr es] by auto

lemma identity_query:
  "andthen (request w (VisaQuery ''*IDN?'')) (\<lambda>r'. say (Identity (strip r'))) t =
     (if fails w t (VisaQuery ''*IDN?'') then (Inl OSError, t @ [VisaQuery ''*IDN?''])
      else (Inr (), t @ [VisaQuery ''*IDN?'',
              Print (Identity (strip (reply w t (VisaQuery ''*IDN?''))))]))"
  by (simp add: andthen_simps say_def)

lemma connect_electronic_load_flat:
  "connect_electronic_load w tr =
     (if succeed w tr setup_steps
      then (let s = strip (reply w (tr @ butlast setup_steps) (VisaQuery ''SYSTem:ERRor?''))
            in if error_reported s then (Inl (LoadSetupError s), tr @ setup_steps)
               else andthen (request w (VisaQuery ''*IDN?'')) (\<lambda>r'. say (Identity (strip r')))
                      (tr @ setup_steps))
      else attempt w setup_steps tr)"
  by (simp add: connect_electronic_load_def setup_steps_def andthen_simps say_def raise_def Let_def)

lemma connect_and_configure_load_flat:
  "connect_and_configure_load w tr =
     (if succeed w tr configure_steps
      then (let s = strip (reply w (tr @ butlast configure_steps) (VisaQuery ''SYSTem:ERRor?''))
            in if error_reported s then (Inl (LoadSetupError s), tr @ configure_steps)
               else andthen (request w (VisaQuery ''*IDN?'')) (\<lambda>r'. say (Identity (strip r')))
                      (tr @ configure_steps))
      else attempt w configure_steps tr)"
  by (simp add: connect_and_configure_load_def configure_steps_def andthen_simps say_def raise_def
      Let_def)

lemma connect_electronic_load_error:
  "fst (connect_electronic_load w tr) = Inl (LoadSetupError s) \<longleftrightarrow>
     succeed w tr setup_steps
     \<and> s = strip (reply w (tr @ butlast setup_steps) (VisaQuery ''SYSTem:ERRor?''))
     \<and> error_reported s"
  by (auto simp: connect_electronic_load_flat identity_query Let_def attempt_raises_OSError)

lemma connect_electronic_load_raises:
  "fst (connect_electronic_load w tr) = Inl (LoadSetupError s) \<Longrightarrow>
   connect_electronic_load w tr = (Inl (LoadSetupError s), tr @ setup_steps)"
  by (auto simp: connect_electronic_load_flat identity_query Let_def attempt_raises_OSError
      split: if_splits)

lemma connect_and_configure_load_error:
  "fst (connect_and_configure_load w tr) = Inl (LoadSetupError s) \<longleftrightarrow>
     succeed w tr configure_steps
     \<and> s = strip (reply w (tr @ butlast configure_steps) (VisaQuery ''SYSTem:ERRor?''))
     \<and> error_reported s"
  by (auto simp: connect_and_configure_load_flat identity_query Let_def attempt_raises_OSError)

lemma connect_and_configure_load_raises:
  "fst (connect_and_configure_load w tr) = Inl (LoadSetupError s) \<Longrightarrow>
   connect_and_configure_load w tr = (Inl (LoadSetupError s), tr @ configure_steps)"
  by (auto simp: connect_and_configure_load_flat identity_query Let_def attempt_raises_OSError
      split: if_splits)

lemma connect_grid_simulator_quiet:
  "\<exists>evs. snd (connect_grid_simulator w c tr) = tr @ evs
      \<and> \<not> list_ex sweep_event evs \<and> VisaQuery ''*IDN?'' \<notin> set evs \<and> milestones evs = []
      \<and> KbHit \<notin> set evs"
  by (simp add: connect_grid_simulator_def print_safety_limits_def send_query_socket_def
      andthen_assoc andthen_simps say_def return_def completed_def)

lemma shutdown_steps_quiet:
  "\<not> list_ex sweep_event (shutdown_steps s l)" "VisaQuery ''*IDN?'' \<notin> set (shutdown_steps s l)"
  "KbHit \<notin> set (shutdown_steps s l)" "milestones (shutdown_steps s l) = []"
  by (simp_all add: steps_eval completed_def)

lemma safety_shutdown_extends:
  "\<exists>n \<le> length (shutdown_steps s l). snd (safety_shutdown w s l tr) = tr @ take n (shutdown_steps s l)"
  unfolding safety_shutdown_attempt by (rule attempt_extends)

lemma list_ex_take: "\<not> list_ex P xs \<Longrightarrow> \<not> list_ex P (take n xs)"
  by (auto simp: list_ex_iff dest: in_set_takeD)

lemma main_after_load_setup_error:
  assumes "connect_grid_simulator w c [] = (Inr (), tr)"
    and "connect_electronic_load w tr = (Inl e, tr1)"
  shows "main w c = Some (safety_shutdown w True False (except_clauses (Inl e) tr1))"
  using assms by (simp add: main_def try_block_def)

lemma fle_Fin [simp]: "fle (Fin x) (Fin y) \<longleftrightarrow> x \<le> y"
  by (auto simp: fle_def)

lemma while_le_unfold_true:
  "fle i stop \<Longrightarrow> body i s = (Inr (), s') \<Longrightarrow>
   while_le body stop step i s = while_le body stop step (fadd i step) s'"
  by (subst while_le.simps) simp

lemma while_le_unfold_raise:
  "fle i stop \<Longrightarrow> body i s = (Inl e, s') \<Longrightarrow>
   while_le body stop step i s = Some (Inl e, s')"
  by (subst while_le.simps) simp

lemma while_le_unfold_false:
  "\<not> fle i stop \<Longrightarrow> while_le body stop step i s = Some (Inr (), s)"
  by (subst while_le.simps) simp

lemma axis_value_Suc: "axis_value a d (Suc k) = axis_value a d k + d"
  by (simp add: axis_value_def algebra_simps)

lemma axis_value_le_iff:
  assumes "0 < d" "a \<le> b"
  shows "axis_value a d k \<le> b \<longleftrightarrow> k \<le> nat \<lfloor>(b - a) / d\<rfloor>"
proof -
  have nn: "0 \<le> (b - a) / d" using assms by simp
  have "axis_value a d k \<le> b \<longleftrightarrow> of_nat k * d \<le> b - a"
    by (auto simp: axis_value_def)
  also have "\<dots> \<longleftrightarrow> of_nat k \<le> (b - a) / d"
    using assms(1) by (simp add: pos_le_divide_eq)
  also have "\<dots> \<longleftrightarrow> int k \<le> \<lfloor>(b - a) / d\<rfloor>"
    by (simp add: le_floor_iff)
  also have "\<dots> \<longleftrightarrow> k \<le> nat \<lfloor>(b - a) / d\<rfloor>"
    using nn by (simp add: nat_le_iff le_nat_iff)
  finally show ?thesis .
qed

lemma while_le_exact:
  assumes d: "0 < d" and ab: "a \<le> b"
    and exact: "\<forall>k \<le> Suc (nat \<lfloor>(b - a) / d\<rfloor>). fl (axis_value a d k) = Fin (axis_value a d k)"
  shows "k \<le> Suc (nat \<lfloor>(b - a) / d\<rfloor>) \<Longrightarrow>
     while_le body (Fin b) (Fin d) (Fin (axis_value a d k)) s
       = Some (run_points body (map (\<lambda>j. Fin (axis_value a d j)) [k..<Suc (nat \<lfloor>(b - a) / d\<rfloor>)]) s)"
proof (induction "Suc (nat \<lfloor>(b - a) / d\<rfloor>) - k" arbitrary: k s)
  case 0
  then have k: "k = Suc (nat \<lfloor>(b - a) / d\<rfloor>)" by simp
  then have "\<not> axis_value a d k \<le> b"
    using axis_value_le_iff [OF d ab, of k] by simp
  then show ?case
    by (simp add: while_le_unfold_false k del: upt_Suc)
next
  case (Suc n)
  let ?N = "nat \<lfloor>(b - a) / d\<rfloor>"
  from Suc.hyps(2) have k: "k \<le> ?N" by simp
  then have le: "fle (Fin (axis_value a d k)) (Fin b)"
    using axis_value_le_iff [OF d ab, of k] by simp
  have "fl (axis_value a d (Suc k)) = Fin (axis_value a d (Suc k))"
    using exact k by simp
  then have next_exact: "fl (axis_value a d k + d) = Fin (axis_value a d (Suc k))"
    by (simp only: axis_value_Suc)
  have upt: "[k..<Suc ?N] = k # [Suc k..<Suc ?N]"
    using k by (simp add: upt_conv_Cons)
  show ?case
  proof (cases "body (Fin (axis_value a d k)) s")
    case (Pair r s')
    show ?thesis
    proof (cases r)
      case (Inl e)
      with Pair show ?thesis
        by (simp add: while_le_unfold_raise [where body = body, OF le] upt del: upt_Suc)
    next
      case (Inr u)
      with Pair have b: "body (Fin (axis_value a d k)) s = (Inr (), s')" by simp
      have "n = Suc ?N - Suc k" using Suc.hyps(2) by simp
      from Suc.hyps(1) [OF this] k
      have "while_le body (Fin b) (Fin d) (Fin (axis_value a d (Suc k))) s'
         = Some (run_points body (map (\<lambda>j. Fin (axis_value a d j)) [Suc k..<Suc ?N]) s')"
        by simp
      then show ?thesis
        by (simp add: while_le_unfold_true [where body = body, OF le b] next_exact upt b
            del: upt_Suc)
    qed
  qed
qed


lemma range_up_unfold_true:
  "0 < step \<Longrightarrow> i < stop \<Longrightarrow> range_up i stop step = i # range_up (i + step) stop step"
  by (subst range_up.simps) simp

lemma range_up_unfold_false:
  "\<not> (0 < step \<and> i < stop) \<Longrightarrow> range_up i stop step = []"
  by (subst range_up.simps) simp

lemma int_le_div_iff:
  fixes a b c :: int
  assumes c: "0 < c"
  shows "a \<le> b div c \<longleftrightarrow> a * c \<le> b"
proof -
  have "a \<le> b div c \<longleftrightarrow> a \<le> \<lfloor>(of_int b :: rat) / of_int c\<rfloor>"
    by (simp add: floor_divide_of_int_eq)
  also have "\<dots> \<longleftrightarrow> (of_int a :: rat) \<le> of_int b / of_int c"
    by (simp add: le_floor_iff)
  also have "\<dots> \<longleftrightarrow> (of_int a :: rat) * of_int c \<le> of_int b"
    using c by (simp add: pos_le_divide_eq)
  also have "\<dots> \<longleftrightarrow> a * c \<le> b"
    by (metis of_int_le_iff of_int_mult)
  finally show ?thesis .
qed

lemma int_axis_le_iff:
  assumes "0 < st" "a \<le> b"
  shows "a + int k * st \<le> b \<longleftrightarrow> k \<le> nat ((b - a) div st)"
proof -
  have nn: "0 \<le> (b - a) div st"
    using assms by (simp add: pos_imp_zdiv_nonneg_iff)
  have "a + int k * st \<le> b \<longleftrightarrow> int k * st \<le> b - a" by auto
  also have "\<dots> \<longleftrightarrow> int k \<le> (b - a) div st"
    using assms(1) by (simp add: int_le_div_iff)
  also have "\<dots> \<longleftrightarrow> k \<le> nat ((b - a) div st)"
    using nn by (simp add: nat_le_iff le_nat_iff)
  finally show ?thesis .
qed

lemma range_up_exact:
  assumes st: "0 < st" and ab: "a \<le> b"
  shows "k \<le> Suc (nat ((b - a) div st)) \<Longrightarrow>
     range_up (a + int k * st) (b + 1) st
       = map (\<lambda>j. a + int j * st) [k..<Suc (nat ((b - a) div st))]"
proof (induction "Suc (nat ((b - a) div st)) - k" arbitrary: k)
  case 0
  then have k: "k = Suc (nat ((b - a) div st))" by simp
  then have "\<not> a + int k * st \<le> b"
    using int_axis_le_iff [OF st ab, of k] by simp
  then show ?case
    by (simp add: range_up_unfold_false k del: upt_Suc)
next
  case (Suc n)
  let ?N = "nat ((b - a) div st)"
  from Suc.hyps(2) have k: "k \<le> ?N" by simp
  then have le: "a + int k * st < b + 1"
    using int_axis_le_iff [OF st ab, of k] by simp
  have upt: "[k..<Suc ?N] = k # [Suc k..<Suc ?N]"
    using k by (simp add: upt_conv_Cons)
  have "n = Suc ?N - Suc k" using Suc.hyps(2) by simp
  from Suc.hyps(1) [OF this] k
  have ih: "range_up (a + int (Suc k) * st) (b + 1) st = map (\<lambda>j. a + int j * st) [Suc k..<Suc ?N]"
    by simp
  have e: "a + int k * st + st = a + int (Suc k) * st"
    by (simp add: algebra_simps)
  have "range_up (a + int k * st) (b + 1) st
      = (a + int k * st) # range_up (a + int k * st + st) (b + 1) st"
    by (rule range_up_unfold_true [OF st le])
  also have "\<dots> = (a + int k * st) # map (\<lambda>j. a + int j * st) [Suc k..<Suc ?N]"
    by (simp only: e ih)
  also have "\<dots> = map (\<lambda>j. a + int j * st) [k..<Suc ?N]"
    by (simp only: upt list.map)
  finally show ?case .
qed





lemma default_axis_exact:
  "\<forall>k \<le> 5. fl (axis_value 0 (5 / 2) k) = Fin (axis_value 0 (5 / 2) k)"
proof (intro allI impI)
  fix k :: nat
  assume "k \<le> 5"
  then consider "k = 0" | "k = 1" | "k = 2" | "k = 3" | "k = 4" | "k = 5"
    by linarith
  then show "fl (axis_value 0 (5 / 2) k) = Fin (axis_value 0 (5 / 2) k)"
    by cases (simp_all add: axis_value_def fl_eval)
qed

lemma default_axis_count: "Suc (nat \<lfloor>((10 :: rat) - 0) / (5 / 2)\<rfloor>) = 5"
  by simp

lemma default_axis_points:
  "map (\<lambda>k. Fin (axis_value 0 (5 / 2) k)) [0..<5]
     = [Fin 0, Fin (5 / 2), Fin 5, Fin (15 / 2), Fin 10]"
proof -
  have "[0..<5] = [0, 1, 2, 3, 4 :: nat]" by code_simp
  then show ?thesis by (simp add: axis_value_def)
qed

lemma never_fails_succeed: "\<forall>tr ev. \<not> fails w tr ev \<Longrightarrow> succeed w tr es"
  by (induction es arbitrary: tr) auto

lemma read_back_passes:
  assumes "fst (read_back w i t) = Inr ()"
  shows "read_back w i t = (Inr (), t @ [VisaQuery ''CURRent?''])"
  using assms by (auto simp: read_back_eq split: if_splits sum.splits)

lemma set_and_measure_passes:
  assumes nf: "\<forall>tr ev. \<not> fails w tr ev" and rp: "readback_passes w i"
  shows "\<exists>vm im pm. set_and_measure w v i t = (Inr (), t @ point_ops i @ [Print (Row v i vm im pm)])"
proof -
  let ?c1 = "VisaWrite (CmdFloat ''CURRent:PEAK:MAXimum:AC'' (peak_maximum i))"
  let ?c2 = "VisaWrite (CmdFloat ''CURR'' i)"
  let ?c3 = "VisaWrite (Cmd ''LOAD ON'')"
  let ?q0 = "VisaQuery ''CURRent?''"
  have sc: "set_current w i t = (Inr (), t @ [?c1, ?c2, ?c3])"
    using nf by (simp add: set_current_eq Let_def)
  from rp have "fst (read_back w i ((t @ [?c1]) @ [?c2, ?c3])) = Inr ()"
    unfolding readback_passes_def by blast
  then have "fst (read_back w i (t @ [?c1, ?c2, ?c3])) = Inr ()" by simp
  from read_back_passes [OF this]
  have rb: "read_back w i (t @ [?c1, ?c2, ?c3]) = (Inr (), t @ [?c1, ?c2, ?c3, ?q0])" by simp
  obtain vm im pm
    where tm: "take_measurements w v i (t @ [?c1, ?c2, ?c3, ?q0]) =
     (Inr (), t @ [?c1, ?c2, ?c3, ?q0, VisaQuery ''MEASure:VOLTage?'',
                   VisaQuery ''MEASure:CURRent?'', VisaQuery ''MEASure:POWer?'',
                   Print (Row v i vm im pm)])"
    using take_measurements_eq [of w "t @ [?c1, ?c2, ?c3, ?q0]" v i] nf by auto
  have "set_and_measure w v i t = (Inr (), t @ point_ops i @ [Print (Row v i vm im pm)])"
    by (simp add: set_and_measure_def andthen_cases sc rb tm point_ops_def)
  then show ?thesis by blast
qed

lemma milestones_point: "milestones (point_ops i @ [Print (Row v i vm im pm)]) = [SetI i, Result v i]"
  by (simp add: point_ops_def)

lemma sweep_point_milestones:
  assumes nf: "\<forall>tr ev. \<not> fails w tr ev"
    and nq: "\<forall>tr k. key w tr = Some k \<longrightarrow> (of_char k :: nat) < 128 \<and> lower [k] \<noteq> ''q''"
    and rp: "readback_passes w i"
  shows "\<exists>evs. sweep_point w v i tr = (Inr (), tr @ evs) \<and> milestones evs = [SetI i, Result v i]"
proof (cases "key w tr")
  case None
  from set_and_measure_passes [OF nf rp, of v "tr @ [KbHit]"] obtain vm im pm where
    "set_and_measure w v i (tr @ [KbHit])
       = (Inr (), (tr @ [KbHit]) @ point_ops i @ [Print (Row v i vm im pm)])" by blast
  with None have "sweep_point w v i tr = (Inr (), tr @ (KbHit # point_ops i @ [Print (Row v i vm im pm)]))"
    by (simp add: sweep_point_eq)
  moreover have "milestones (KbHit # point_ops i @ [Print (Row v i vm im pm)]) = [SetI i, Result v i]"
    using milestones_point [of i v vm im pm] by simp
  ultimately show ?thesis by blast
next
  case (Some k)
  with nq have k: "(of_char k :: nat) < 128" "lower [k] \<noteq> ''q''" by blast+
  from set_and_measure_passes [OF nf rp, of v "tr @ [KbHit, GetCh]"] obtain vm im pm where
    "set_and_measure w v i (tr @ [KbHit, GetCh])
       = (Inr (), (tr @ [KbHit, GetCh]) @ point_ops i @ [Print (Row v i vm im pm)])" by blast
  with Some k
  have "sweep_point w v i tr
      = (Inr (), tr @ (KbHit # GetCh # point_ops i @ [Print (Row v i vm im pm)]))"
    by (simp add: sweep_point_eq)
  moreover have "milestones (KbHit # GetCh # point_ops i @ [Print (Row v i vm im pm)])
      = [SetI i, Result v i]"
    using milestones_point [of i v vm im pm] by simp
  ultimately show ?thesis by blast
qed

lemma run_points_milestones:
  assumes nf: "\<forall>tr ev. \<not> fails w tr ev"
    and nq: "\<forall>tr k. key w tr = Some k \<longrightarrow> (of_char k :: nat) < 128 \<and> lower [k] \<noteq> ''q''"
  shows "\<forall>i \<in> set grid. readback_passes w i \<Longrightarrow>
     \<exists>evs. run_points (sweep_point w v) grid tr = (Inr (), tr @ evs)
        \<and> milestones evs = concat (map (\<lambda>i. [SetI i, Result v i]) grid)"
proof (induction grid arbitrary: tr)
  case Nil
  then show ?case by simp
next
  case (Cons i grid)
  from Cons.prems have rp: "readback_passes w i" by simp
  from sweep_point_milestones [OF nf nq rp, of v tr] obtain e1 where
    e1: "sweep_point w v i tr = (Inr (), tr @ e1)" "milestones e1 = [SetI i, Result v i]" by blast
  from Cons.IH [of "tr @ e1"] Cons.prems obtain e2 where
    e2: "run_points (sweep_point w v) grid (tr @ e1) = (Inr (), (tr @ e1) @ e2)"
      "milestones e2 = concat (map (\<lambda>i. [SetI i, Result v i]) grid)" by auto
  have "run_points (sweep_point w v) (i # grid) tr = (Inr (), tr @ (e1 @ e2))"
    using e1(1) e2(1) by simp
  moreover have "milestones (e1 @ e2) = concat (map (\<lambda>i. [SetI i, Result v i]) (i # grid))"
    using e1(2) e2(2) by simp
  ultimately show ?case by blast
qed

lemma fl_five_halves: "fl (5 / 2) = Fin (5 / 2)"
  by (simp add: fl_eval)

lemma default_current_sweep:
  "current_sweep w default_config v (current_start default_config) tr
     = Some (run_points (sweep_point w v) [Fin 0, Fin (5 / 2), Fin 5, Fin (15 / 2), Fin 10] tr)"
proof -
  have d: "(0 :: rat) < 5 / 2" and ab: "(0 :: rat) \<le> 10" by simp_all
  have exact: "\<forall>k \<le> Suc (nat \<lfloor>((10 :: rat) - 0) / (5 / 2)\<rfloor>).
      fl (axis_value 0 (5 / 2) k) = Fin (axis_value 0 (5 / 2) k)"
    using default_axis_exact by (simp only: default_axis_count)
  have z: "axis_value 0 (5 / 2) 0 = 0" by (simp add: axis_value_def)
  from while_le_exact [OF d ab exact, of 0 "sweep_point w v" tr]
  have "while_le (sweep_point w v) (Fin 10) (Fin (5 / 2)) (Fin 0) tr
      = Some (run_points (sweep_point w v) (map (\<lambda>k. Fin (axis_value 0 (5 / 2) k)) [0..<5]) tr)"
    by (simp only: default_axis_count z)
  then show ?thesis
    by (simp add: current_sweep_def default_config_def fl_five_halves default_axis_points)
qed

lemma separator_not_completed: "separator \<noteq> completed"
proof
  assume "separator = completed"
  then have "length (replicate 68 (CHR ''-'')) = length ''--- Sweep Completed Successfully ---''"
    by (simp add: separator_def completed_def)
  then show False by simp
qed

lemma milestones_separator [simp]: "milestone_of (Print separator) = None"
  using separator_not_completed by (simp add: separator_def)

lemma milestones_completed [simp]: "milestone_of (Print completed) = Some Completed"
  by (simp add: completed_def)

lemma voltage_sweep_milestones:
  assumes nf: "\<forall>tr ev. \<not> fails w tr ev"
    and nq: "\<forall>tr k. key w tr = Some k \<longrightarrow> (of_char k :: nat) < 128 \<and> lower [k] \<noteq> ''q''"
    and rp: "\<forall>i \<in> set [Fin 0, Fin (5 / 2), Fin 5, Fin (15 / 2), Fin 10]. readback_passes w i"
  shows "\<exists>evs. voltage_sweep w default_config vs tr = Some (Inr (), tr @ evs)
        \<and> milestones evs = concat (map grid_milestones vs)"
proof (induction vs arbitrary: tr)
  case Nil
  then show ?case by simp
next
  case (Cons v vs)
  let ?t1 = "tr @ [SockSend (CmdInt ''VOLTage'' v)]"
  have p: "perform w (SockSend (CmdInt ''VOLTage'' v)) tr = (Inr (), ?t1)"
    using nf by (simp add: perform_def)
  from run_points_milestones [OF nf nq rp, of v ?t1] obtain e1 where
    e1: "run_points (sweep_point w v) [Fin 0, Fin (5 / 2), Fin 5, Fin (15 / 2), Fin 10] ?t1
          = (Inr (), ?t1 @ e1)"
      "milestones e1 = concat (map (\<lambda>i. [SetI i, Result v i]) [Fin 0, Fin (5 / 2), Fin 5, Fin (15 / 2), Fin 10])"
    by blast
  have cs: "current_sweep w default_config v (current_start default_config) ?t1 = Some (Inr (), ?t1 @ e1)"
    by (simp only: default_current_sweep e1(1))
  from Cons.IH [of "(?t1 @ e1) @ [Print separator]"] obtain e2 where
    e2: "voltage_sweep w default_config vs ((?t1 @ e1) @ [Print separator])
          = Some (Inr (), ((?t1 @ e1) @ [Print separator]) @ e2)"
      "milestones e2 = concat (map grid_milestones vs)" by blast
  have "voltage_sweep w default_config (v # vs) tr
      = Some (Inr (), tr @ (SockSend (CmdInt ''VOLTage'' v) # e1 @ Print separator # e2))"
    using e2(1) by (simp add: p cs)
  moreover have "milestones (SockSend (CmdInt ''VOLTage'' v) # e1 @ Print separator # e2)
      = concat (map grid_milestones (v # vs))"
    using e1(2) e2(2) by (simp add: grid_milestones_def)
  ultimately show ?case by blast
qed

lemma default_range: "py_range (voltage_start default_config) (voltage_stop default_config + 1)
    (voltage_step default_config) = Inr [100, 125, 150]"
proof -
  have "[0..<3] = [0, 1, 2 :: nat]" by code_simp
  then have "map (\<lambda>k. 100 + int k * 25) [0..<Suc (nat ((150 - 100) div 25))] = [100, 125, 150]"
    by simp
  moreover have "range_up (100 + int 0 * 25) (150 + 1) 25
      = map (\<lambda>k. 100 + int k * 25) [0..<Suc (nat ((150 - 100) div 25))]"
    by (rule range_up_exact) simp_all
  ultimately show ?thesis
    by (simp add: py_range_def default_config_def)
qed

lemma sweep_phase_milestones:
  assumes nf: "\<forall>tr ev. \<not> fails w tr ev"
    and nq: "\<forall>tr k. key w tr = Some k \<longrightarrow> (of_char k :: nat) < 128 \<and> lower [k] \<noteq> ''q''"
    and rp: "\<forall>i \<in> set [Fin 0, Fin (5 / 2), Fin 5, Fin (15 / 2), Fin 10]. readback_passes w i"
  shows "\<exists>evs. sweep_phase w default_config tr = Some (Inr (), tr @ evs)
        \<and> milestones evs = concat (map grid_milestones [100, 125, 150]) @ [Completed]"
proof -
  let ?pre = "[Print (Text ''Preparing for test. Turning Grid Simulator ON.''),
      SockSend (Cmd ''OUTPut ON''),
      Print (Text ''Press q at any time to stop the sweep and save results.''),
      Print (Text ''--- Starting Nested V-I Sweep ---''),
      Print (Text ''V Set (V) | I Set (A) | V Meas (V) | I Meas (A) | P Meas (W)''),
      Print separator]"
  from voltage_sweep_milestones [OF nf nq rp, of "[100, 125, 150]" "tr @ ?pre"] obtain e where
    e: "voltage_sweep w default_config [100, 125, 150] (tr @ ?pre) = Some (Inr (), (tr @ ?pre) @ e)"
      "milestones e = concat (map grid_milestones [100, 125, 150])" by blast
  have "sweep_phase w default_config tr = Some (Inr (), tr @ (?pre @ e @ [Print completed]))"
    using nf e(1) by (simp add: sweep_phase_def andthen_simps lift_def default_range say_def)
  moreover have "milestones (?pre @ e @ [Print completed])
      = concat (map grid_milestones [100, 125, 150]) @ [Completed]"
    using e(2) by (simp add: completed_def)
  ultimately show ?thesis by blast
qed

section \<open>The shutdown sequence (C1)\<close>

text \<open>
  C1, as stated: the shutdown sequence attempts every cleanup step for every connected
  endpoint and never raises, even when a step raises.  This is false: no step of the
  \<open>finally\<close> block is guarded.  With both instruments connected and a simulator socket on
  which sending \<open>VOLTage 0\<close> raises, the sequence raises at that first step; switching the
  output off, closing the socket and all four load steps are not attempted.
\<close>

theorem shutdown_counterexample:
  "safety_shutdown broken_world True True []
     = (Inl OSError,
        [Print (Text ''Cleaning up and shutting down outputs...''), SockSend (Cmd ''VOLTage 0'')])"
  by (simp add: safety_shutdown_attempt shutdown_steps_def simulator_steps_def load_steps_def
      broken_world_def)

text \<open>
  C1, amended.  For every subset of connected endpoints, the shutdown sequence of
  \<^verbatim>\<open>Control_Both.py\<close> performs the steps \<open>shutdown_steps\<close> (for the simulator: zero voltage,
  output off, close; then for the load: load off, zero current, reset, close) in this
  order.  When no step raises, every step of every connected endpoint is performed and
  the sequence raises nothing.  When some step raises, the sequence stops at the first
  such step and raises its error; the steps after it are not attempted.  The same holds
  for the cleanup of \<^verbatim>\<open>Control Load.py\<close> with \<open>cleanup_steps\<close>.
\<close>

theorem shutdown_stops_at_first_failure:
  "(succeed w tr (shutdown_steps s l) \<longrightarrow>
      safety_shutdown w s l tr = (Inr (), tr @ shutdown_steps s l))
   \<and> (\<not> succeed w tr (shutdown_steps s l) \<longrightarrow>
      (\<exists>n < length (shutdown_steps s l).
          safety_shutdown w s l tr = (Inl OSError, tr @ take (Suc n) (shutdown_steps s l))
        \<and> succeed w tr (take n (shutdown_steps s l))
        \<and> fails w (tr @ take n (shutdown_steps s l)) (shutdown_steps s l ! n)))
   \<and> (succeed w tr (cleanup_steps l) \<longrightarrow>
      safety_cleanup w l tr = (Inr (), tr @ cleanup_steps l))
   \<and> (\<not> succeed w tr (cleanup_steps l) \<longrightarrow>
      (\<exists>n < length (cleanup_steps l).
          safety_cleanup w l tr = (Inl OSError, tr @ take (Suc n) (cleanup_steps l))
        \<and> succeed w tr (take n (cleanup_steps l))
        \<and> fails w (tr @ take n (cleanup_steps l)) (cleanup_steps l ! n)))"
proof -
  have a: "safety_shutdown w s l tr = (Inr (), tr @ shutdown_steps s l)"
    if "succeed w tr (shutdown_steps s l)"
    using attempt_succeed [OF that] by (simp add: safety_shutdown_attempt)
  have b: "\<exists>n < length (shutdown_steps s l).
          safety_shutdown w s l tr = (Inl OSError, tr @ take (Suc n) (shutdown_steps s l))
        \<and> succeed w tr (take n (shutdown_steps s l))
        \<and> fails w (tr @ take n (shutdown_steps s l)) (shutdown_steps s l ! n)"
    if "\<not> succeed w tr (shutdown_steps s l)"
    using attempt_fail [OF that] unfolding safety_shutdown_attempt by blast
  have c: "safety_cleanup w l tr = (Inr (), tr @ cleanup_steps l)"
    if "succeed w tr (cleanup_steps l)"
    using attempt_succeed [OF that] by (simp add: safety_cleanup_attempt)
  have d: "\<exists>n < length (cleanup_steps l).
          safety_cleanup w l tr = (Inl OSError, tr @ take (Suc n) (cleanup_steps l))
        \<and> succeed w tr (take n (cleanup_steps l))
        \<and> fails w (tr @ take n (cleanup_steps l)) (cleanup_steps l ! n)"
    if "\<not> succeed w tr (cleanup_steps l)"
    using attempt_fail [OF that] unfolding safety_cleanup_attempt by blast
  from a b c d show ?thesis by blast
qed

theorem shutdown_stops_at_first_failure_witness:
  "safety_shutdown bench_world True True [] = (Inr (), [] @ shutdown_steps True True)
   \<and> safety_cleanup bench_world True [] = (Inr (), [] @ cleanup_steps True)
   \<and> (\<exists>n < length (shutdown_steps True True).
         safety_shutdown broken_world True True []
           = (Inl OSError, [] @ take (Suc n) (shutdown_steps True True)))
   \<and> (\<exists>n < length (cleanup_steps True).
         safety_cleanup broken_world True [] = (Inl OSError, [] @ take (Suc n) (cleanup_steps True)))"
proof -
  have s1: "succeed bench_world [] (shutdown_steps True True)"
    by (simp add: steps_eval bench_world_def)
  have s2: "succeed bench_world [] (cleanup_steps True)"
    by (simp add: steps_eval bench_world_def)
  have f1: "\<not> succeed broken_world [] (shutdown_steps True True)"
    by (simp add: steps_eval broken_world_def)
  have f2: "\<not> succeed broken_world [] (cleanup_steps True)"
    by (simp add: steps_eval broken_world_def)
  from shutdown_stops_at_first_failure [of bench_world "[]" True True] s1 s2
  have a: "safety_shutdown bench_world True True [] = (Inr (), [] @ shutdown_steps True True)"
    and b: "safety_cleanup bench_world True [] = (Inr (), [] @ cleanup_steps True)"
    by blast+
  from shutdown_stops_at_first_failure [of broken_world "[]" True True] f1 f2
  have c: "\<exists>n < length (shutdown_steps True True).
         safety_shutdown broken_world True True []
           = (Inl OSError, [] @ take (Suc n) (shutdown_steps True True))"
    and d: "\<exists>n < length (cleanup_steps True).
         safety_cleanup broken_world True [] = (Inl OSError, [] @ take (Suc n) (cleanup_steps True))"
    by blast+
  from a b c d show ?thesis by blast
qed

section \<open>Iterations of a sweep axis (C2)\<close>




section \<open>Strict and tolerant parsing (C3)\<close>




section \<open>The readback check (C4)\<close>

text \<open>
  The check compares in floating point.  For every setpoint and every readback whose
  difference is a number, it accepts exactly when the absolute difference is at most
  the tolerance \<open>0.1\<close>: this is \<open>verify_current_iff\<close> above.

  C4 at a readback that is not a number.  The load answers the setpoint query with the
  text \<open>nan\<close>, which \<open>float\<close> parses to not-a-number.  The check
  \<^verbatim>\<open>abs(readback_current - i_set) > 0.1\<close> is then false, so nothing is raised and the
  iteration goes on to measure, although the readback is not within the tolerance of the
  setpoint \<open>2.5\<close>.
\<close>

theorem verify_current_accepts_nan:
  "float_of_str ''nan'' = Inr NaN
   \<and> verify_current (Fin (5 / 2)) NaN [] = (Inr (), [])
   \<and> \<not> fle (fabs (fsub NaN (Fin (5 / 2)))) (fl (1 / 10))
   \<and> fst (sweep_point nan_readback_world 100 (Fin (5 / 2)) []) = Inr ()"
proof -
  have a: "verify_current (Fin (5 / 2)) NaN [] = (Inr (), [])"
    by (simp add: verify_current_def fsub_def fgt_def return_def fl_tenth)
  have b: "\<not> fle (fabs (fsub NaN (Fin (5 / 2)))) (fl (1 / 10))"
    by (simp add: fsub_def fle_def)
  have c: "fst (sweep_point nan_readback_world 100 (Fin (5 / 2)) []) = Inr ()"
    by (simp add: body_eval nan_readback_world_def bench_eval str_eval fl_eval)
  from float_of_str_nan a b c show ?thesis by blast
qed

section \<open>The tolerant parser (C7)\<close>



section \<open>The error check of the load setup (C8)\<close>

text \<open>
  C8.  The connect routine raises the setup error with text \<open>s\<close> exactly when every
  operation up to and including the error-status query succeeded, \<open>s\<close> is the stripped
  answer to that query, and \<open>s\<close> is not \<open>0\<close>, is not \<open>OK\<close> and does not start with \<open>0,\<close>.
  When it raises, the error-status query is the last operation of the routine (no
  identity query is issued); and in the combined script, with the simulator connected,
  the run goes straight to the error message and the shutdown of the simulator: its
  trace contains no operation of the sweep and no identity query.  The same holds for
  the setup routine of \<^verbatim>\<open>Control Load.py\<close>.
\<close>

theorem load_setup_error:
  "(fst (connect_electronic_load w tr) = Inl (LoadSetupError s) \<longleftrightarrow>
      succeed w tr setup_steps
      \<and> s = strip (reply w (tr @ butlast setup_steps) (VisaQuery ''SYSTem:ERRor?''))
      \<and> s \<noteq> ''0'' \<and> s \<noteq> ''OK'' \<and> \<not> startswith s ''0,'')
   \<and> (fst (connect_electronic_load w tr) = Inl (LoadSetupError s) \<longrightarrow>
        connect_electronic_load w tr = (Inl (LoadSetupError s), tr @ setup_steps)
        \<and> VisaQuery ''*IDN?'' \<notin> set setup_steps)
   \<and> (connect_grid_simulator w c [] = (Inr (), tr)
        \<and> fst (connect_electronic_load w tr) = Inl (LoadSetupError s) \<longrightarrow>
        main w c = Some (safety_shutdown w True False
                      (tr @ setup_steps @ [Print (ErrorOccurred (LoadSetupError s))]))
        \<and> (\<forall>r T. main w c = Some (r, T) \<longrightarrow>
              \<not> list_ex sweep_event T \<and> VisaQuery ''*IDN?'' \<notin> set T))
   \<and> (fst (connect_and_configure_load w tr) = Inl (LoadSetupError s) \<longleftrightarrow>
      succeed w tr configure_steps
      \<and> s = strip (reply w (tr @ butlast configure_steps) (VisaQuery ''SYSTem:ERRor?''))
      \<and> s \<noteq> ''0'' \<and> s \<noteq> ''OK'' \<and> \<not> startswith s ''0,'')
   \<and> (fst (connect_and_configure_load w tr) = Inl (LoadSetupError s) \<longrightarrow>
        connect_and_configure_load w tr = (Inl (LoadSetupError s), tr @ configure_steps)
        \<and> VisaQuery ''*IDN?'' \<notin> set configure_steps)"
proof -
  have a: "fst (connect_electronic_load w tr) = Inl (LoadSetupError s) \<longleftrightarrow>
      succeed w tr setup_steps
      \<and> s = strip (reply w (tr @ butlast setup_steps) (VisaQuery ''SYSTem:ERRor?''))
      \<and> s \<noteq> ''0'' \<and> s \<noteq> ''OK'' \<and> \<not> startswith s ''0,''"
    unfolding connect_electronic_load_error error_reported_iff by blast
  have b: "connect_electronic_load w tr = (Inl (LoadSetupError s), tr @ setup_steps)
        \<and> VisaQuery ''*IDN?'' \<notin> set setup_steps"
    if "fst (connect_electronic_load w tr) = Inl (LoadSetupError s)"
    using connect_electronic_load_raises [OF that] by (simp add: setup_steps_def)
  have c: "main w c = Some (safety_shutdown w True False
                      (tr @ setup_steps @ [Print (ErrorOccurred (LoadSetupError s))]))
        \<and> (\<forall>r T. main w c = Some (r, T) \<longrightarrow>
              \<not> list_ex sweep_event T \<and> VisaQuery ''*IDN?'' \<notin> set T)"
    if sim: "connect_grid_simulator w c [] = (Inr (), tr)"
      and err: "fst (connect_electronic_load w tr) = Inl (LoadSetupError s)"
  proof -
    let ?t = "tr @ setup_steps @ [Print (ErrorOccurred (LoadSetupError s))]"
    have m: "main w c = Some (safety_shutdown w True False ?t)"
      using main_after_load_setup_error [OF sim connect_electronic_load_raises [OF err]]
      by (simp add: except_clauses_def)
    obtain evs where "snd (connect_grid_simulator w c []) = [] @ evs"
      and "\<not> list_ex sweep_event evs" and "VisaQuery ''*IDN?'' \<notin> set evs"
      using connect_grid_simulator_quiet [of w c "[]"] by blast
    with sim have q1: "\<not> list_ex sweep_event tr" "VisaQuery ''*IDN?'' \<notin> set tr"
      by simp_all
    have q2: "\<not> list_ex sweep_event ?t" "VisaQuery ''*IDN?'' \<notin> set ?t"
      using q1 by (simp_all add: setup_steps_def)
    obtain n where n: "snd (safety_shutdown w True False ?t) = ?t @ take n (shutdown_steps True False)"
      using safety_shutdown_extends [of True False w ?t] by blast
    have q3: "\<not> list_ex sweep_event (take n (shutdown_steps True False))"
      by (rule list_ex_take) (rule shutdown_steps_quiet)
    have q4: "VisaQuery ''*IDN?'' \<notin> set (take n (shutdown_steps True False))"
      using shutdown_steps_quiet(2) [of True False] by (meson in_set_takeD)
    have "\<not> list_ex sweep_event T \<and> VisaQuery ''*IDN?'' \<notin> set T"
      if "main w c = Some (r, T)" for r T
    proof -
      from that m have "T = snd (safety_shutdown w True False ?t)"
        by (metis option.inject snd_conv)
      with n have T: "T = ?t @ take n (shutdown_steps True False)" by simp
      show ?thesis
        unfolding T using q2 q3 q4 by (simp only: list_ex_append set_append Un_iff) blast
    qed
    with m show ?thesis by blast
  qed
  have d: "fst (connect_and_configure_load w tr) = Inl (LoadSetupError s) \<longleftrightarrow>
      succeed w tr configure_steps
      \<and> s = strip (reply w (tr @ butlast configure_steps) (VisaQuery ''SYSTem:ERRor?''))
      \<and> s \<noteq> ''0'' \<and> s \<noteq> ''OK'' \<and> \<not> startswith s ''0,''"
    unfolding connect_and_configure_load_error error_reported_iff by blast
  have e: "connect_and_configure_load w tr = (Inl (LoadSetupError s), tr @ configure_steps)
        \<and> VisaQuery ''*IDN?'' \<notin> set configure_steps"
    if "fst (connect_and_configure_load w tr) = Inl (LoadSetupError s)"
    using connect_and_configure_load_raises [OF that] by (simp add: configure_steps_def)
  from a b c d e show ?thesis by blast
qed

theorem load_setup_error_witness:
  "fst (connect_electronic_load error_world (snd (connect_grid_simulator error_world default_config [])))
     = Inl (LoadSetupError ''-113,Undefined header'')
   \<and> main error_world default_config
     = Some (safety_shutdown error_world True False
         (snd (connect_grid_simulator error_world default_config []) @ setup_steps
            @ [Print (ErrorOccurred (LoadSetupError ''-113,Undefined header''))]))
   \<and> fst (connect_and_configure_load error_world []) = Inl (LoadSetupError ''-113,Undefined header'')"
proof -
  let ?tr = "snd (connect_grid_simulator error_world default_config [])"
  let ?s = "''-113,Undefined header''"
  have "fst (connect_grid_simulator error_world default_config []) = Inr ()"
    by (simp add: connect_grid_simulator_def print_safety_limits_def send_query_socket_def
        action_defs error_world_def)
  then have sim: "connect_grid_simulator error_world default_config [] = (Inr (), ?tr)"
    by (metis prod.collapse)
  have ok: "succeed error_world tr setup_steps" "succeed error_world tr configure_steps" for tr
    by (simp_all add: setup_steps_def configure_steps_def error_world_def)
  have s: "?s = strip (reply error_world (tr @ butlast setup_steps) (VisaQuery ''SYSTem:ERRor?''))"
    "?s = strip (reply error_world (tr @ butlast configure_steps) (VisaQuery ''SYSTem:ERRor?''))" for tr
    by (simp_all add: error_world_def str_eval)
  have cond: "?s \<noteq> ''0'' \<and> ?s \<noteq> ''OK'' \<and> \<not> startswith ?s ''0,''"
    by (simp add: startswith_def)
  have a: "fst (connect_electronic_load error_world ?tr) = Inl (LoadSetupError ?s)"
    using load_setup_error [of error_world ?tr ?s default_config] ok(1) [of ?tr] s(1) [of ?tr] cond
    by blast
  have b: "main error_world default_config
     = Some (safety_shutdown error_world True False
         (?tr @ setup_steps @ [Print (ErrorOccurred (LoadSetupError ?s))]))"
    using load_setup_error [of error_world ?tr ?s default_config] sim a by blast
  have c: "fst (connect_and_configure_load error_world []) = Inl (LoadSetupError ?s)"
    using load_setup_error [of error_world "[]" ?s default_config] ok(2) [of "[]"] s(2) [of "[]"] cond
    by blast
  from a b c show ?thesis by blast
qed

section \<open>Cleaning of a socket response (C9)\<close>

text \<open>
  C9, as stated: the query returns the raw response with trailing whitespace stripped
  and null bytes removed, and removes nothing else.  This is false: a response that
  starts with a blank loses the blank too.
\<close>

theorem send_query_socket_counterexample:
  "fst (send_query_socket leading_space_world ''MEASure:VOLTage?'' [])
     \<noteq> Inr (cleaned_as_specified (reply leading_space_world [SockSend (Cmd ''MEASure:VOLTage?'')] SockRecv))"
  by (simp add: send_query_socket_def leading_space_world_def cleaned_as_specified_def action_defs
      str_eval)

text \<open>
  C9, amended.  When sending and receiving succeed, \<open>send_query_socket\<close> (and \<open>send_query\<close>)
  returns the raw decoded response with the whitespace at both ends stripped first and
  all null bytes removed afterwards: the raw text is a run of whitespace, the stripped
  text, and a run of whitespace; the stripped text neither starts nor ends with
  whitespace; and the result is the stripped text without its null bytes.
\<close>

theorem send_query_socket_cleans:
  assumes "\<not> fails w tr (SockSend (Cmd q))"
    and "\<not> fails w (tr @ [SockSend (Cmd q)]) SockRecv"
    and "raw = reply w (tr @ [SockSend (Cmd q)]) SockRecv"
  shows "send_query_socket w q tr = (Inr (remove_nul (strip raw)), tr @ [SockSend (Cmd q), SockRecv])
       \<and> send_query w q tr = (Inr (remove_nul (strip raw)), tr @ [SockSend (Cmd q), SockRecv])
       \<and> (\<exists>a b. raw = a @ strip raw @ b \<and> list_all is_space a \<and> list_all is_space b)
       \<and> (strip raw \<noteq> [] \<longrightarrow> \<not> is_space (hd (strip raw)) \<and> \<not> is_space (last (strip raw)))
       \<and> remove_nul (strip raw) = filter (\<lambda>c. c \<noteq> CHR 0x00) (strip raw)"
proof -
  have a: "send_query_socket w q tr = (Inr (remove_nul (strip raw)), tr @ [SockSend (Cmd q), SockRecv])"
    using assms by (simp add: send_query_socket_def action_defs)
  have b: "send_query w q tr = (Inr (remove_nul (strip raw)), tr @ [SockSend (Cmd q), SockRecv])"
    using assms by (simp add: send_query_def action_defs)
  have c: "remove_nul (strip raw) = filter (\<lambda>c. c \<noteq> CHR 0x00) (strip raw)"
    by (simp add: remove_nul_def)
  from a b c strip_decomp [of raw] strip_ends [of raw] show ?thesis
    by blast
qed

theorem send_query_socket_cleans_witness:
  "send_query_socket nul_terminated_world ''MEASure:VOLTage?'' []
     = (Inr ''5'', [SockSend (Cmd ''MEASure:VOLTage?''), SockRecv])"
proof -
  let ?raw = "[CHR '' '', CHR ''5'', CHR 0x00, CHR 0x0A]"
  have h1: "\<not> fails nul_terminated_world [] (SockSend (Cmd ''MEASure:VOLTage?''))"
    by (simp add: nul_terminated_world_def)
  have h2: "\<not> fails nul_terminated_world ([] @ [SockSend (Cmd ''MEASure:VOLTage?'')]) SockRecv"
    by (simp add: nul_terminated_world_def)
  have h3: "?raw = reply nul_terminated_world ([] @ [SockSend (Cmd ''MEASure:VOLTage?'')]) SockRecv"
    by (simp add: nul_terminated_world_def)
  have "send_query_socket nul_terminated_world ''MEASure:VOLTage?'' []
      = (Inr (remove_nul (strip ?raw)), [] @ [SockSend (Cmd ''MEASure:VOLTage?''), SockRecv])"
    using send_query_socket_cleans [OF h1 h2 h3] by (rule conjunct1)
  moreover have "remove_nul (strip ?raw) = ''5''"
    by (simp add: str_eval)
  ultimately show ?thesis by simp
qed

section \<open>The command sequence of one sweep point (C10)\<close>

text \<open>
  C10.  In every iteration of the inner loop, whatever the instruments and the keyboard
  do, the command lines written to the load are an initial part of the fixed sequence
  peak-current limit, current setpoint, load-on, and they are exactly these three when
  the iteration completes.  The argument of the peak-limit command is the float product
  of the setpoint and 1.5 when the setpoint is positive, and 0.1 when the setpoint is
  zero.
\<close>

theorem peak_limit_precedes_setpoint:
  "\<exists>evs arg. snd (sweep_point w v i tr) = tr @ evs
     \<and> prefix (load_writes evs)
          [CmdFloat ''CURRent:PEAK:MAXimum:AC'' arg, CmdFloat ''CURR'' i, Cmd ''LOAD ON'']
     \<and> (fst (sweep_point w v i tr) = Inr () \<longrightarrow>
          load_writes evs =
            [CmdFloat ''CURRent:PEAK:MAXimum:AC'' arg, CmdFloat ''CURR'' i, Cmd ''LOAD ON''])
     \<and> (\<forall>x. i = Fin x \<and> 0 < x \<longrightarrow> arg = fl (x * (3 / 2)))
     \<and> (i = Fin 0 \<longrightarrow> arg = fl (1 / 10))"
proof -
  let ?arg = "peak_maximum i"
  obtain evs where e: "sweep_point w v i tr = (fst (sweep_point w v i tr), tr @ KbHit # evs)"
    and p: "prefix (load_writes evs)
           [CmdFloat ''CURRent:PEAK:MAXimum:AC'' ?arg, CmdFloat ''CURR'' i, Cmd ''LOAD ON'']"
    and a: "fst (sweep_point w v i tr) = Inr () \<longrightarrow>
           load_writes evs =
             [CmdFloat ''CURRent:PEAK:MAXimum:AC'' ?arg, CmdFloat ''CURR'' i, Cmd ''LOAD ON'']"
    using sweep_point_shape [of w v i tr] by blast
  from e have s: "snd (sweep_point w v i tr) = tr @ KbHit # evs"
    by (metis snd_conv)
  have pos: "\<forall>x. i = Fin x \<and> 0 < x \<longrightarrow> ?arg = fl (x * (3 / 2))"
    by (simp add: peak_maximum_def fgt_def fl_three_halves)
  have zero: "i = Fin 0 \<longrightarrow> ?arg = fl (1 / 10)"
    by (simp add: peak_maximum_def fgt_def)
  from s p a pos zero show ?thesis
    by (intro exI [where x = "KbHit # evs"] exI [where x = ?arg]) simp
qed

theorem peak_limit_precedes_setpoint_witness:
  "load_writes (snd (sweep_point bench_world 100 (Fin (5 / 2)) []))
     = [CmdFloat ''CURRent:PEAK:MAXimum:AC'' (Fin (15 / 4)), CmdFloat ''CURR'' (Fin (5 / 2)),
        Cmd ''LOAD ON'']
   \<and> load_writes (snd (sweep_point bench_world 100 (Fin 0) []))
     = [CmdFloat ''CURRent:PEAK:MAXimum:AC'' (fl (1 / 10)), CmdFloat ''CURR'' (Fin 0),
        Cmd ''LOAD ON'']"
proof -
  have ok1: "fst (sweep_point bench_world 100 (Fin (5 / 2)) []) = Inr ()"
    by (simp add: body_eval bench_eval str_eval fl_eval)
  have ok0: "fst (sweep_point bench_world 100 (Fin 0) []) = Inr ()"
    by (simp add: body_eval bench_eval str_eval fl_eval)
  have v: "fl (5 / 2 * (3 / 2)) = Fin (15 / 4)"
    by (simp add: fl_eval)
  obtain evs arg where s: "snd (sweep_point bench_world 100 (Fin (5 / 2)) []) = [] @ evs"
    and full: "fst (sweep_point bench_world 100 (Fin (5 / 2)) []) = Inr () \<longrightarrow>
          load_writes evs =
            [CmdFloat ''CURRent:PEAK:MAXimum:AC'' arg, CmdFloat ''CURR'' (Fin (5 / 2)),
             Cmd ''LOAD ON'']"
    and pos: "\<forall>x. Fin (5 / 2) = Fin x \<and> 0 < x \<longrightarrow> arg = fl (x * (3 / 2))"
    using peak_limit_precedes_setpoint [of bench_world 100 "Fin (5 / 2)" "[]"] by blast
  from pos have "arg = fl (5 / 2 * (3 / 2))"
    by (elim allE [where x = "5 / 2"]) simp
  with v have "arg = Fin (15 / 4)" by simp
  with s full ok1
  have a: "load_writes (snd (sweep_point bench_world 100 (Fin (5 / 2)) []))
     = [CmdFloat ''CURRent:PEAK:MAXimum:AC'' (Fin (15 / 4)), CmdFloat ''CURR'' (Fin (5 / 2)),
        Cmd ''LOAD ON'']"
    by simp
  obtain evs0 arg0 where s0: "snd (sweep_point bench_world 100 (Fin 0) []) = [] @ evs0"
    and full0: "fst (sweep_point bench_world 100 (Fin 0) []) = Inr () \<longrightarrow>
          load_writes evs0 =
            [CmdFloat ''CURRent:PEAK:MAXimum:AC'' arg0, CmdFloat ''CURR'' (Fin 0),
             Cmd ''LOAD ON'']"
    and zero: "Fin 0 = Fin 0 \<longrightarrow> arg0 = fl (1 / 10)"
    using peak_limit_precedes_setpoint [of bench_world 100 "Fin 0" "[]"] by blast
  from zero have "arg0 = fl (1 / 10)" by simp
  with s0 full0 ok0
  have b: "load_writes (snd (sweep_point bench_world 100 (Fin 0) []))
     = [CmdFloat ''CURRent:PEAK:MAXimum:AC'' (fl (1 / 10)), CmdFloat ''CURR'' (Fin 0),
        Cmd ''LOAD ON'']"
    by simp
  from a b show ?thesis ..
qed

end
